theory Spec2Isabelle
  imports Main "HOL-Library.AList"
begin

section \<open>Python values\<close>

text \<open>
  Strings are byte strings (\<open>char list\<close>). An optional command line value is a
  \<open>string option\<close>: \<open>None\<close> is Python's \<open>None\<close>. Python tests such values for truth, and
  both \<open>None\<close> and the empty string are false.
\<close>

definition truthy :: "string option \<Rightarrow> bool" where
  "truthy v = (case v of None \<Rightarrow> False | Some s \<Rightarrow> s \<noteq> [])"

text \<open>\<open>str.split(sep)\<close> with a one-character separator, and \<open>sep.join(words)\<close>.\<close>

fun split_sep :: "char \<Rightarrow> string \<Rightarrow> string list" where
  "split_sep sep [] = [[]]"
| "split_sep sep (c # cs) =
     (if c = sep then [] # split_sep sep cs
      else (case split_sep sep cs of
              w # ws \<Rightarrow> (c # w) # ws
            | [] \<Rightarrow> [[c]]))"

fun join_sep :: "char \<Rightarrow> string list \<Rightarrow> string" where
  "join_sep sep [] = []"
| "join_sep sep [w] = w"
| "join_sep sep (w # v # ws) = w @ sep # join_sep sep (v # ws)"

text \<open>\<open>str.lower()\<close> on ASCII letters.\<close>

definition lower :: "string \<Rightarrow> string" where
  "lower s = map (\<lambda>c. let n = (of_char c :: nat)
                       in if 65 \<le> n \<and> n \<le> 90 then char_of (n + 32) else c) s"

text \<open>Values passed as keyword arguments to the collaborators.\<close>

datatype pyval = PyNone | PyStr string | PyInt int | PyBool bool | PyList "string list"

definition opt_str :: "string option \<Rightarrow> pyval" where
  "opt_str v = (case v of None \<Rightarrow> PyNone | Some s \<Rightarrow> PyStr s)"

section \<open>\<open>csv_list\<close>\<close>

text \<open>\<open>def csv_list(string): return string.split(',')\<close>\<close>

definition csv_list :: "string \<Rightarrow> string list" where
  "csv_list string = split_sep (CHR '','') string"

text \<open>
  \<open>--jobs_whitelist\<close> and \<open>--jobs_blacklist\<close> are declared with \<open>default=[]\<close> and
  \<open>type=csv_list\<close>: an absent option is the empty list, a given one is parsed.
\<close>

definition jobs_option :: "string option \<Rightarrow> string list" where
  "jobs_option v = (case v of None \<Rightarrow> [] | Some s \<Rightarrow> csv_list s)"

section \<open>\<open>os.path.abspath\<close>\<close>

text \<open>
  The standard library's POSIX implementation: a relative path is joined to the current
  directory, and the result is normalised (empty and \<open>.\<close> components dropped, \<open>..\<close>
  resolved, one or two leading slashes kept).
\<close>

definition isabs :: "string \<Rightarrow> bool" where
  "isabs p = (case p of [] \<Rightarrow> False | c # _ \<Rightarrow> c = CHR ''/'')"

definition path_join :: "string \<Rightarrow> string \<Rightarrow> string" where
  "path_join a b =
     (if isabs b then b
      else if a = [] \<or> last a = CHR ''/'' then a @ b
      else a @ CHR ''/'' # b)"

definition norm_step :: "bool \<Rightarrow> string list \<Rightarrow> string \<Rightarrow> string list" where
  "norm_step initial_slashes new_comps part =
     (if part = [] \<or> part = ''.'' then new_comps
      else if part \<noteq> ''..'' \<or> (\<not> initial_slashes \<and> new_comps = [])
              \<or> (new_comps \<noteq> [] \<and> last new_comps = ''..'')
           then new_comps @ [part]
      else if new_comps \<noteq> [] then butlast new_comps
      else new_comps)"

definition normpath :: "string \<Rightarrow> string" where
  "normpath p =
     (if p = [] then ''.''
      else
        let initial_slashes =
              (if \<not> isabs p then (0::nat)
               else if take 2 p = ''//'' \<and> take 3 p \<noteq> ''///'' then 2
               else 1);
            comps = foldl (norm_step (initial_slashes \<noteq> 0)) [] (split_sep (CHR ''/'') p);
            q = replicate initial_slashes (CHR ''/'') @ join_sep (CHR ''/'') comps
        in if q = [] then ''.'' else q)"

definition abspath :: "string \<Rightarrow> string \<Rightarrow> string" where
  "abspath cwd p = normpath (if isabs p then p else path_join cwd p)"

section \<open>Evidence and Request\<close>

text \<open>
  Modelled from the spec: the module \<open>turbinia.evidence\<close> is not part of the sources.
  Section 3 of the specification lists the variants and their attributes; a constructor
  stores the keyword arguments it is given. \<open>cloud_only\<close> is true for the two Google
  Cloud variants, and only they carry a \<open>project\<close>. The \<open>type\<close> attribute used in the
  log messages is the name of the variant.
\<close>

datatype evidence =
    RawDisk string string int "string option"
      \<comment> \<open>name, local_path, mount_partition, source\<close>
  | APFSEncryptedDisk string string "string option" "string option" "string option"
      \<comment> \<open>name, local_path, recovery_key, password, source\<close>
  | BitlockerDisk string string "string option" "string option" "string option"
      \<comment> \<open>name, local_path, recovery_key, password, source\<close>
  | Directory string string "string option"
      \<comment> \<open>name, local_path, source\<close>
  | GoogleCloudDisk string string string int string "string option"
      \<comment> \<open>name, disk_name, project, mount_partition, zone, source\<close>
  | GoogleCloudDiskRawEmbedded string string string int string string "string option"
      \<comment> \<open>name, disk_name, embedded_path, mount_partition, project, zone, source\<close>
  | RawMemory string string string "string list"
      \<comment> \<open>name, local_path, profile, module_list\<close>

fun evidence_name :: "evidence \<Rightarrow> string" where
  "evidence_name (RawDisk n _ _ _) = n"
| "evidence_name (APFSEncryptedDisk n _ _ _ _) = n"
| "evidence_name (BitlockerDisk n _ _ _ _) = n"
| "evidence_name (Directory n _ _) = n"
| "evidence_name (GoogleCloudDisk n _ _ _ _ _) = n"
| "evidence_name (GoogleCloudDiskRawEmbedded n _ _ _ _ _ _) = n"
| "evidence_name (RawMemory n _ _ _) = n"

fun evidence_local_path :: "evidence \<Rightarrow> string option" where
  "evidence_local_path (RawDisk _ p _ _) = Some p"
| "evidence_local_path (APFSEncryptedDisk _ p _ _ _) = Some p"
| "evidence_local_path (BitlockerDisk _ p _ _ _) = Some p"
| "evidence_local_path (Directory _ p _) = Some p"
| "evidence_local_path (GoogleCloudDisk _ _ _ _ _ _) = None"
| "evidence_local_path (GoogleCloudDiskRawEmbedded _ _ _ _ _ _ _) = None"
| "evidence_local_path (RawMemory _ p _ _) = Some p"

fun cloud_only :: "evidence \<Rightarrow> bool" where
  "cloud_only (GoogleCloudDisk _ _ _ _ _ _) = True"
| "cloud_only (GoogleCloudDiskRawEmbedded _ _ _ _ _ _ _) = True"
| "cloud_only _ = False"

fun evidence_project :: "evidence \<Rightarrow> string option" where
  "evidence_project (GoogleCloudDisk _ _ p _ _ _) = Some p"
| "evidence_project (GoogleCloudDiskRawEmbedded _ _ _ _ p _ _) = Some p"
| "evidence_project _ = None"

fun evidence_type :: "evidence \<Rightarrow> string" where
  "evidence_type (RawDisk _ _ _ _) = ''RawDisk''"
| "evidence_type (APFSEncryptedDisk _ _ _ _ _) = ''APFSEncryptedDisk''"
| "evidence_type (BitlockerDisk _ _ _ _ _) = ''BitlockerDisk''"
| "evidence_type (Directory _ _ _) = ''Directory''"
| "evidence_type (GoogleCloudDisk _ _ _ _ _ _) = ''GoogleCloudDisk''"
| "evidence_type (GoogleCloudDiskRawEmbedded _ _ _ _ _ _ _) = ''GoogleCloudDiskRawEmbedded''"
| "evidence_type (RawMemory _ _ _ _) = ''RawMemory''"

text \<open>
  Modelled from the spec: \<open>turbinia.message.TurbiniaRequest\<close> is not part of the sources.
  A request has a \<open>request_id\<close> (the caller's, or a generated one), a \<open>requester\<close>, a
  list of evidence and a recipe, a dictionary from option names to lists of strings
  that is empty on a new request. The recipe is kept as an association list.
\<close>

record request =
  request_id :: string
  requester :: string
  req_evidence :: "evidence list"
  recipe :: "(string \<times> string list) list"

definition recipe_set :: "string \<Rightarrow> string list \<Rightarrow> request \<Rightarrow> request" where
  "recipe_set k v r = r\<lparr>recipe := AList.update k v (recipe r)\<rparr>"

definition recipe_get :: "request \<Rightarrow> string \<Rightarrow> string list option" where
  "recipe_get r k = map_of (recipe r) k"

section \<open>Command line, deployment and collaborators\<close>

text \<open>
  The namespace \<open>parser.parse_args()\<close> returns. The attributes of the chosen subcommand
  exist only for that subcommand, so the subcommand is a datatype with its own
  attributes; \<open>OtherCmd\<close> stands for a command name that none of the branches of \<open>main\<close>
  handles. \<open>request_id\<close> is one attribute, shared by the global option and by the one of
  \<open>status\<close>.
\<close>

datatype command =
    RawDiskCmd string int "string option" "string option"
      \<comment> \<open>local_path, mount_partition, source, name\<close>
  | ApfsCmd string "string option" "string option" "string option" "string option"
      \<comment> \<open>local_path, recovery_key, password, source, name\<close>
  | BitlockerCmd string "string option" "string option" "string option" "string option"
      \<comment> \<open>local_path, recovery_key, password, source, name\<close>
  | GoogleCloudDiskCmd string string int string "string option" "string option"
      \<comment> \<open>disk_name, project, mount_partition, zone, source, name\<close>
  | GoogleCloudDiskEmbeddedCmd string string string int string "string option" "string option"
      \<comment> \<open>embedded_path, disk_name, project, mount_partition, zone, source, name\<close>
  | RawMemoryCmd string string "string option" "string list"
      \<comment> \<open>local_path, profile, name, module_list\<close>
  | DirectoryCmd string "string option" "string option"
      \<comment> \<open>local_path, source, name\<close>
  | ListJobsCmd
  | PsqWorkerCmd bool
      \<comment> \<open>single_threaded\<close>
  | CeleryWorkerCmd
  | StatusCmd bool int bool int bool "string option" "string option"
      \<comment> \<open>close_tasks, days_history, force, priority_filter, full_report, task_id, user\<close>
  | ServerCmd
  | OtherCmd string

record args =
  quiet :: bool
  debug :: bool
  all_fields :: bool
  force_evidence :: bool
  output_dir :: "string option"
  log_file :: "string option"
  arg_request_id :: "string option"
  run_local :: bool
  server :: bool
  dump_json :: bool
  filter_patterns_file :: "string option"
  jobs_whitelist :: "string list"
  jobs_blacklist :: "string list"
  poll_interval :: int
  task :: "string option"
  wait :: bool
  command :: command

text \<open>
  What \<open>main\<close> calls outside itself. A call is recorded with its arguments; whether it
  comes back, and with which value, is the environment's.
\<close>

datatype call =
    LoadConfig
  | LoggerSetup
  | Construct string "(string \<times> pyval) list"
      \<comment> \<open>\<open>TurbiniaClient(run_local=True)\<close>, \<open>TurbiniaServer(...)\<close>, \<open>TurbiniaPsqWorker()\<close>\<close>
  | WorkerStart
  | ServerAddEvidence evidence
  | ServerStart
  | ClientCall string "(string \<times> pyval) list"
      \<comment> \<open>\<open>client.close_tasks(...)\<close>, \<open>client.wait_for_request(...)\<close>, ...\<close>
  | SendRequest request
  | RunLocalTask "string option" "request option"
  | ToJson request

text \<open>
  The deployment's configuration (\<open>turbinia.config\<close> after \<open>LoadConfig\<close>), the file
  system, the operator and the behaviour of the collaborators. \<open>read_lines p\<close> is the
  result of \<open>open(p).read().splitlines()\<close>, \<open>Inl\<close> the text of the \<open>IOError\<close> it raised.
  \<open>returns c\<close> tells whether the call \<open>c\<close> comes back to \<open>main\<close> (a server or a worker started
  runs indefinitely, the wait for a request has no timeout), \<open>result c\<close> is the text it
  returns.
\<close>

record env =
  version :: string
  TASK_MANAGER :: string
  SHARED_FILESYSTEM :: bool
  TURBINIA_PROJECT :: string
  TURBINIA_REGION :: string
  INSTANCE_ID :: string
  getcwd :: string
  path_exists :: "string \<Rightarrow> bool"
  read_lines :: "string \<Rightarrow> string + string list"
  getuser :: string
  generated_id :: string
  returns :: "call \<Rightarrow> bool"
  result :: "call \<Rightarrow> string"

section \<open>The state of one run\<close>

datatype level = ERROR | WARNING | INFO | DEBUG

text \<open>
  \<open>Print\<close> is \<open>print\<close> of a text. \<open>PrintBytes\<close> is \<open>print\<close> of the bytes object that
  \<open>.encode('utf-8')\<close> makes of a text: the bytes themselves under Python 2, their
  literal \<open>b'...'\<close> under Python 3. Strings being byte strings here, the argument is the
  text that was encoded.
\<close>

datatype event =
    SetLevel level
  | Log level string
  | Print string
  | PrintBytes string
  | SetConfig string string
  | Call call

text \<open>
  How the process ends: \<open>sys.exit(n)\<close>, an exception nobody catches, or a collaborator
  that never hands control back.
\<close>

datatype outcome = Exit int | Raised string | NoReturn

datatype client = TurbiniaCeleryClient | TurbiniaClient bool

text \<open>
  The run's observable trace, how it ended (\<open>None\<close> while it runs), and the local
  variables of \<open>main\<close>; \<open>the_evidence\<close> is the variable the source calls \<open>evidence_\<close>.
\<close>

record state =
  trace :: "event list"
  halted :: "outcome option"
  filter_patterns :: "string list option"
  client :: "client option"
  the_evidence :: "evidence option"
  is_cloud_disk :: bool
  request :: "request option"

definition init_state :: state where
  "init_state = \<lparr>trace = [], halted = None, filter_patterns = None, client = None,
                 the_evidence = None, is_cloud_disk = False, request = None\<rparr>"

definition emit :: "event \<Rightarrow> state \<Rightarrow> state" where
  "emit e s = s\<lparr>trace := trace s @ [e]\<rparr>"

definition log :: "level \<Rightarrow> string \<Rightarrow> state \<Rightarrow> state" where
  "log l msg = emit (Log l msg)"

definition sys_exit :: "int \<Rightarrow> state \<Rightarrow> state" where
  "sys_exit n s = s\<lparr>halted := Some (Exit n)\<rparr>"

definition raise :: "string \<Rightarrow> state \<Rightarrow> state" where
  "raise e s = s\<lparr>halted := Some (Raised e)\<rparr>"

definition do_call :: "env \<Rightarrow> call \<Rightarrow> state \<Rightarrow> state" where
  "do_call e c s =
     (emit (Call c) s)\<lparr>halted := (if returns e c then None else Some NoReturn)\<rparr>"

text \<open>Statements in sequence: the next one runs only while the process has not ended.\<close>

fun seq :: "(state \<Rightarrow> state) list \<Rightarrow> state \<Rightarrow> state" where
  "seq [] s = s"
| "seq (f # fs) s = (if halted s = None then seq fs (f s) else s)"

definition skip :: "state \<Rightarrow> state" where
  "skip s = s"

text \<open>A method call on \<open>client\<close>; on \<open>None\<close> Python raises \<open>AttributeError\<close>.\<close>

definition on_client :: "env \<Rightarrow> call \<Rightarrow> state \<Rightarrow> state" where
  "on_client e c s =
     (case client s of
        None \<Rightarrow> raise ''AttributeError'' s
      | Some _ \<Rightarrow> do_call e c s)"

definition client_call :: "env \<Rightarrow> string \<Rightarrow> (string \<times> pyval) list \<Rightarrow> state \<Rightarrow> state" where
  "client_call e m kwargs = on_client e (ClientCall m kwargs)"

text \<open>\<open>print(client.m(...))\<close>\<close>

definition print_client_call :: "env \<Rightarrow> string \<Rightarrow> (string \<times> pyval) list \<Rightarrow> state \<Rightarrow> state" where
  "print_client_call e m kwargs =
     seq [client_call e m kwargs, emit (Print (result e (ClientCall m kwargs)))]"

section \<open>\<open>main\<close>, statement by statement\<close>

text \<open>
  The model starts at line 307, with the namespace that \<open>parse_args\<close> has returned. A
  \<open>Log\<close> event records that the logger was called at that level, whatever level line 307
  to 312 have set; \<open>--verbose\<close> is parsed and never read. Each definition below is a
  run of consecutive statements of \<open>main\<close>, and \<open>main\<close> is their sequence.
\<close>

text \<open>Lines 307 to 314: the log level, and the version.\<close>

definition set_log_level :: "args \<Rightarrow> state \<Rightarrow> state" where
  "set_log_level a =
     emit (SetLevel (if quiet a then ERROR else if debug a then DEBUG else INFO))"

text \<open>Lines 316 to 320: a whitelist and a blacklist together.\<close>

definition check_job_filters :: "args \<Rightarrow> state \<Rightarrow> state" where
  "check_job_filters a =
     (if jobs_whitelist a \<noteq> [] \<and> jobs_blacklist a \<noteq> [] then
        seq [log ERROR (''A Job filter whitelist and blacklist cannot be specified at the same ''
                        @ ''time''),
             sys_exit 1]
      else skip)"

text \<open>
  Lines 322 to 332: the filter patterns file. The message of the first branch is never
  formatted, so it keeps its placeholder.
\<close>

definition load_filter_patterns :: "args \<Rightarrow> env \<Rightarrow> state \<Rightarrow> state" where
  "load_filter_patterns a e =
     (case filter_patterns_file a of
        None \<Rightarrow> skip
      | Some p \<Rightarrow>
          if p = [] then skip
          else if \<not> path_exists e p then
            seq [log ERROR ''Filter patterns file {0:s} does not exist.'', sys_exit 1]
          else
            (case read_lines e p of
               Inr ls \<Rightarrow> (\<lambda>s. s\<lparr>filter_patterns := Some ls\<rparr>)
             | Inl err \<Rightarrow> log WARNING (''Cannot open file '' @ p @ '' ['' @ err @ '']'')))"

text \<open>Lines 336 to 344: the client.\<close>

definition is_worker_or_server :: "command \<Rightarrow> bool" where
  "is_worker_or_server c = (case c of PsqWorkerCmd _ \<Rightarrow> True | ServerCmd \<Rightarrow> True | _ \<Rightarrow> False)"

definition make_client :: "args \<Rightarrow> env \<Rightarrow> state \<Rightarrow> state" where
  "make_client a e =
     (if \<not> is_worker_or_server (command a) then
        (if lower (TASK_MANAGER e) = ''celery'' then
           seq [do_call e (Construct ''TurbiniaCeleryClient'' []),
                (\<lambda>s. s\<lparr>client := Some TurbiniaCeleryClient\<rparr>)]
         else if run_local a then
           seq [do_call e (Construct ''TurbiniaClient'' [(''run_local'', PyBool True)]),
                (\<lambda>s. s\<lparr>client := Some (TurbiniaClient True)\<rparr>)]
         else
           seq [do_call e (Construct ''TurbiniaClient'' []),
                (\<lambda>s. s\<lparr>client := Some (TurbiniaClient False)\<rparr>)])
      else (\<lambda>s. s\<lparr>client := None\<rparr>))"

text \<open>Lines 346 to 354: \<open>--run_local\<close> against the server and worker roles, and its task.\<close>

definition check_run_local :: "args \<Rightarrow> state \<Rightarrow> state" where
  "check_run_local a =
     (let server_flags_set = (server a \<or> command a = ServerCmd);
          worker_flags_set =
            (case command a of PsqWorkerCmd _ \<Rightarrow> True | CeleryWorkerCmd \<Rightarrow> True | _ \<Rightarrow> False)
      in seq
        [if run_local a \<and> (server_flags_set \<or> worker_flags_set) then
           seq [log ERROR ''--run_local flag is not compatible with server/worker flags'',
                sys_exit 1]
         else skip,
         if run_local a \<and> \<not> truthy (task a) then
           seq [log ERROR ''--run_local flag requires --task flag'', sys_exit 1]
         else skip])"

text \<open>Lines 356 to 359.\<close>

definition set_config :: "args \<Rightarrow> state \<Rightarrow> state" where
  "set_config a =
     seq [if truthy (output_dir a) then emit (SetConfig ''OUTPUT_DIR'' (the (output_dir a)))
          else skip,
          if truthy (log_file a) then emit (SetConfig ''LOG_FILE'' (the (log_file a)))
          else skip]"

text \<open>
  Lines 361 to 463: the subcommand. \<open>args.name = args.name if args.name else x\<close> is
  \<open>default_name\<close>.
\<close>

definition default_name :: "string option \<Rightarrow> string \<Rightarrow> string" where
  "default_name n x = (if truthy n then the n else x)"

definition set_evidence :: "evidence \<Rightarrow> state \<Rightarrow> state" where
  "set_evidence ev s = s\<lparr>the_evidence := Some ev\<rparr>"

definition set_cloud_disk :: "state \<Rightarrow> state" where
  "set_cloud_disk s = s\<lparr>is_cloud_disk := True\<rparr>"

text \<open>The keyword arguments of \<open>client.format_task_status\<close> at lines 453 to 458.\<close>

definition status_kwargs ::
  "args \<Rightarrow> env \<Rightarrow> int \<Rightarrow> int \<Rightarrow> bool \<Rightarrow> string option \<Rightarrow> string option
     \<Rightarrow> (string \<times> pyval) list" where
  "status_kwargs a e days_history priority_filter full_report task_id user =
     [(''instance'', PyStr (INSTANCE_ID e)),
      (''project'', PyStr (TURBINIA_PROJECT e)),
      (''region'', PyStr (TURBINIA_REGION e)),
      (''days'', PyInt days_history),
      (''task_id'', opt_str task_id),
      (''request_id'', opt_str (arg_request_id a)),
      (''user'', opt_str user),
      (''all_fields'', PyBool (all_fields a)),
      (''full_report'', PyBool full_report),
      (''priority_filter'', PyInt priority_filter)]"

definition status_command ::
  "args \<Rightarrow> env \<Rightarrow> bool \<Rightarrow> int \<Rightarrow> int \<Rightarrow> bool \<Rightarrow> string option \<Rightarrow> string option
     \<Rightarrow> state \<Rightarrow> state" where
  "status_command a e close_tasks days_history priority_filter full_report task_id user =
     (let region = TURBINIA_REGION e in
      seq
        [if close_tasks then
           (if truthy user \<or> truthy (arg_request_id a) \<or> truthy task_id then
              seq [print_client_call e ''close_tasks''
                     [(''instance'', PyStr (INSTANCE_ID e)),
                      (''project'', PyStr (TURBINIA_PROJECT e)),
                      (''region'', PyStr region),
                      (''request_id'', opt_str (arg_request_id a)),
                      (''task_id'', opt_str task_id),
                      (''user'', opt_str user),
                      (''requester'', PyStr (getuser e))],
                   sys_exit 0]
            else
              seq [log INFO
                     ''--close_tasks (-c) requires --user, --request_id, or/and --task_id'',
                   sys_exit 1])
         else skip,
         if wait a \<and> truthy (arg_request_id a) then
           client_call e ''wait_for_request''
             [(''instance'', PyStr (INSTANCE_ID e)),
              (''project'', PyStr (TURBINIA_PROJECT e)),
              (''region'', PyStr region),
              (''request_id'', opt_str (arg_request_id a)),
              (''user'', opt_str user),
              (''poll_interval'', PyInt (poll_interval a))]
         else if wait a \<and> \<not> truthy (arg_request_id a) then
           log INFO (''--wait requires --request_id, which is not specified. ''
                     @ ''turbiniactl will exit without waiting.'')
         else skip,
         print_client_call e ''format_task_status''
           (status_kwargs a e days_history priority_filter full_report task_id user)])"

definition encrypted_disk ::
  "env \<Rightarrow> (string \<Rightarrow> string \<Rightarrow> string option \<Rightarrow> string option \<Rightarrow> string option \<Rightarrow> evidence)
     \<Rightarrow> string \<Rightarrow> string option \<Rightarrow> string option \<Rightarrow> string option \<Rightarrow> string option
     \<Rightarrow> state \<Rightarrow> state" where
  "encrypted_disk e mk local_path recovery_key password source name =
     seq [if \<not> truthy password \<and> \<not> truthy recovery_key then
            seq [log ERROR ''Neither recovery key nor password is specified.'', sys_exit 1]
          else skip,
          set_evidence (mk (default_name name local_path) (abspath (getcwd e) local_path)
                          recovery_key password source)]"

fun run_command :: "args \<Rightarrow> env \<Rightarrow> command \<Rightarrow> state \<Rightarrow> state" where
  "run_command a e (RawDiskCmd local_path mount_partition source name) =
     set_evidence (RawDisk (default_name name local_path) (abspath (getcwd e) local_path)
                     mount_partition source)"
| "run_command a e (ApfsCmd local_path recovery_key password source name) =
     encrypted_disk e APFSEncryptedDisk local_path recovery_key password source name"
| "run_command a e (BitlockerCmd local_path recovery_key password source name) =
     encrypted_disk e BitlockerDisk local_path recovery_key password source name"
| "run_command a e (DirectoryCmd local_path source name) =
     set_evidence (Directory (default_name name local_path) (abspath (getcwd e) local_path)
                     source)"
| "run_command a e (GoogleCloudDiskCmd disk_name project mount_partition zone source name) =
     seq [set_cloud_disk,
          set_evidence (GoogleCloudDisk (default_name name disk_name) disk_name project
                          mount_partition zone source)]"
| "run_command a e (GoogleCloudDiskEmbeddedCmd embedded_path disk_name project mount_partition
                      zone source name) =
     seq [set_cloud_disk,
          set_evidence (GoogleCloudDiskRawEmbedded (default_name name disk_name) disk_name
                          embedded_path mount_partition project zone source)]"
| "run_command a e (RawMemoryCmd local_path profile name module_list) =
     set_evidence (RawMemory (default_name name local_path) (abspath (getcwd e) local_path)
                     profile module_list)"
| "run_command a e (PsqWorkerCmd single_threaded) =
     seq [do_call e LoggerSetup, do_call e (Construct ''TurbiniaPsqWorker'' []),
          do_call e WorkerStart]"
| "run_command a e CeleryWorkerCmd =
     seq [do_call e LoggerSetup, do_call e (Construct ''TurbiniaCeleryWorker'' []),
          do_call e WorkerStart]"
| "run_command a e ServerCmd =
     seq [do_call e (Construct ''TurbiniaServer''
                       [(''jobs_blacklist'', PyList (jobs_blacklist a)),
                        (''jobs_whitelist'', PyList (jobs_whitelist a))]),
          do_call e ServerStart]"
| "run_command a e (StatusCmd close_tasks days_history force priority_filter full_report
                      task_id user) =
     status_command a e close_tasks days_history priority_filter full_report task_id user"
| "run_command a e ListJobsCmd =
     seq [log INFO ''Available Jobs:'', client_call e ''list_jobs'' []]"
| "run_command a e (OtherCmd c) =
     log WARNING (''Command '' @ c @ '' not implemented.'')"

text \<open>Lines 465 to 477: the evidence against the deployment's file system mode.\<close>

definition compatibility_gate :: "args \<Rightarrow> env \<Rightarrow> state \<Rightarrow> state" where
  "compatibility_gate a e s =
     (case the_evidence s of
        None \<Rightarrow> s
      | Some ev \<Rightarrow>
          if \<not> force_evidence a then
            (if SHARED_FILESYSTEM e \<and> cloud_only ev then
               seq [log ERROR (''The evidence type '' @ evidence_type ev
                               @ '' is Cloud only, and this instance of ''
                               @ ''Turbinia is not a cloud instance.''),
                    sys_exit 1] s
             else if \<not> SHARED_FILESYSTEM e \<and> \<not> cloud_only ev then
               seq [log ERROR (''The evidence type '' @ evidence_type ev
                               @ '' cannot run on Cloud instances of ''
                               @ ''Turbinia. Consider wrapping it in a ''
                               @ ''GoogleCloudDiskRawEmbedded or other Cloud compatible ''
                               @ ''object''),
                    sys_exit 1] s
             else s)
          else s)"

text \<open>Lines 479 to 490: the project of a cloud disk against the deployment's.\<close>

definition project_msg :: "env \<Rightarrow> string \<Rightarrow> string" where
  "project_msg e p =
     ''Turbinia project '' @ TURBINIA_PROJECT e @ '' is different from evidence project '' @ p
     @ ''. This processing request will fail unless the Turbinia service ''
     @ ''account has permissions to this project.''"

definition project_check :: "args \<Rightarrow> env \<Rightarrow> state \<Rightarrow> state" where
  "project_check a e s =
     (if is_cloud_disk s then
        (case Option.bind (the_evidence s) evidence_project of
           None \<Rightarrow> raise ''AttributeError'' s
         | Some p \<Rightarrow>
             if p \<noteq> TURBINIA_PROJECT e then
               (if force_evidence a then log WARNING (project_msg e p) s
                else
                  seq [log ERROR (project_msg e p
                                  @ '' Use --force_evidence if you are sure you want to do this.''),
                       sys_exit 1] s)
             else s)
      else s)"

text \<open>
  Modelled from the spec: the constructor of \<open>TurbiniaRequest\<close> is not part of the
  sources. A new request adopts the caller's \<open>request_id\<close> or generates one, and starts
  with no evidence and an empty recipe.
\<close>

definition new_request :: "env \<Rightarrow> string option \<Rightarrow> string \<Rightarrow> request" where
  "new_request e rid user =
     \<lparr>request_id = (if truthy rid then the rid else generated_id e), requester = user,
      req_evidence = [], recipe = []\<rparr>"

text \<open>Lines 502 to 510: the request, its evidence and its recipe.\<close>

definition build_request :: "args \<Rightarrow> env \<Rightarrow> evidence \<Rightarrow> string list option \<Rightarrow> request" where
  "build_request a e ev patterns =
     (let r0 = new_request e (arg_request_id a) (getuser e);
          r1 = r0\<lparr>req_evidence := req_evidence r0 @ [ev]\<rparr>;
          r2 = (case patterns of
                  None \<Rightarrow> r1
                | Some ps \<Rightarrow> if ps \<noteq> [] then recipe_set ''filter_patterns'' ps r1 else r1);
          r3 = (if jobs_blacklist a \<noteq> [] then recipe_set ''jobs_blacklist'' (jobs_blacklist a) r2
                else r2)
      in if jobs_whitelist a \<noteq> [] then recipe_set ''jobs_whitelist'' (jobs_whitelist a) r3
         else r3)"

text \<open>
  Lines 496 to 538: the evidence goes to an embedded server, or a request is built and
  dumped, or sent, and waited for.
\<close>

definition submit :: "args \<Rightarrow> env \<Rightarrow> evidence \<Rightarrow> request \<Rightarrow> state \<Rightarrow> state" where
  "submit a e ev r =
     seq
       [if dump_json a then
          seq [do_call e (ToJson r), emit (PrintBytes (result e (ToJson r))), sys_exit 0]
        else
          seq [log INFO (''Creating request '' @ request_id r @ '' with evidence ''
                         @ evidence_name ev),
               log INFO (''Run command \"turbiniactl status -r '' @ request_id r
                         @ ''\" to see the status of''
                         @ '' this request and associated tasks''),
               if \<not> run_local a then on_client e (SendRequest r)
               else log DEBUG ''--run_local specified so not sending request to server''],
        if wait a then
          seq [log INFO (''Waiting for request '' @ request_id r @ '' to complete''),
               client_call e ''wait_for_request''
                 [(''instance'', PyStr (INSTANCE_ID e)),
                  (''project'', PyStr (TURBINIA_PROJECT e)),
                  (''region'', PyStr (TURBINIA_REGION e)),
                  (''request_id'', PyStr (request_id r)),
                  (''poll_interval'', PyInt (poll_interval a))],
               print_client_call e ''format_task_status''
                 [(''instance'', PyStr (INSTANCE_ID e)),
                  (''project'', PyStr (TURBINIA_PROJECT e)),
                  (''region'', PyStr (TURBINIA_REGION e)),
                  (''request_id'', PyStr (request_id r)),
                  (''all_fields'', PyBool (all_fields a))]]
        else skip]"

definition dispatch :: "args \<Rightarrow> env \<Rightarrow> state \<Rightarrow> state" where
  "dispatch a e s =
     (case the_evidence s of
        None \<Rightarrow> s
      | Some ev \<Rightarrow>
          if server a then
            seq [do_call e (Construct ''TurbiniaServer'' []), do_call e (ServerAddEvidence ev),
                 do_call e ServerStart] s
          else
            (let r = build_request a e ev (filter_patterns s)
             in submit a e ev r (s\<lparr>request := Some r\<rparr>)))"

text \<open>Lines 540 to 548: what \<open>--run_local\<close> needs, and the local task.\<close>

definition run_local_task :: "args \<Rightarrow> env \<Rightarrow> state \<Rightarrow> state" where
  "run_local_task a e s =
     (if run_local a then
        (case the_evidence s of
           None \<Rightarrow>
             seq [log ERROR ''Evidence must be specified if using --run_local'', sys_exit 1] s
         | Some ev \<Rightarrow>
             if cloud_only ev then
               seq [log ERROR ''--run_local cannot be used with Cloud only Evidence types'',
                    sys_exit 1] s
             else
               seq [on_client e (RunLocalTask (task a) (request s)),
                    log INFO (''Task execution result: ''
                              @ result e (RunLocalTask (task a) (request s)))] s)
      else s)"

text \<open>The whole of \<open>main\<close>, after the parsing of the command line.\<close>

definition main :: "args \<Rightarrow> env \<Rightarrow> state" where
  "main a e =
     seq [set_log_level a,
          log INFO (''Turbinia version: '' @ version e),
          check_job_filters a,
          load_filter_patterns a e,
          do_call e LoadConfig,
          make_client a e,
          check_run_local a,
          set_config a,
          run_command a e (command a),
          compatibility_gate a e,
          project_check a e,
          dispatch a e,
          run_local_task a e,
          log INFO ''Done.'',
          sys_exit 0]
       init_state"

section \<open>The run, stage by stage\<close>

text \<open>
  The state after the checks of the command line (line 359), and after the subcommand
  has run (line 463): the prefixes of \<open>main\<close> that the specification calls the
  Command Validator and the Evidence Factory.
\<close>

definition validated :: "args \<Rightarrow> env \<Rightarrow> state" where
  "validated a e =
     seq [set_log_level a,
          log INFO (''Turbinia version: '' @ version e),
          check_job_filters a,
          load_filter_patterns a e,
          do_call e LoadConfig,
          make_client a e,
          check_run_local a,
          set_config a]
       init_state"

definition constructed :: "args \<Rightarrow> env \<Rightarrow> state" where
  "constructed a e = seq [run_command a e (command a)] (validated a e)"

text \<open>The state after the two checks of the Compatibility Gate (line 490).\<close>

definition gated :: "args \<Rightarrow> env \<Rightarrow> state" where
  "gated a e = seq [compatibility_gate a e, project_check a e] (constructed a e)"

text \<open>The requests a run has built or handed to a collaborator.\<close>

fun call_request :: "call \<Rightarrow> request option" where
  "call_request (SendRequest r) = Some r"
| "call_request (RunLocalTask t r) = r"
| "call_request (ToJson r) = Some r"
| "call_request _ = None"

fun event_request :: "event \<Rightarrow> request option" where
  "event_request (Call c) = call_request c"
| "event_request _ = None"

definition requests_of :: "state \<Rightarrow> request set" where
  "requests_of s = set_option (request s) \<union> set (List.map_filter event_request (trace s))"

text \<open>A job filter a request carries: the key is in the recipe, with a non-empty list.\<close>

definition carries :: "request \<Rightarrow> string \<Rightarrow> bool" where
  "carries r k = (case recipe_get r k of None \<Rightarrow> False | Some xs \<Rightarrow> xs \<noteq> [])"

text \<open>Calls of the submission collaborator, and of the Completion Waiter.\<close>

fun is_send_request :: "event \<Rightarrow> bool" where
  "is_send_request (Call (SendRequest r)) = True"
| "is_send_request _ = False"

fun is_wait_for_request :: "event \<Rightarrow> bool" where
  "is_wait_for_request (Call (ClientCall m kwargs)) = (m = ''wait_for_request'')"
| "is_wait_for_request _ = False"

text \<open>What the run writes to its standard output.\<close>

fun is_print :: "event \<Rightarrow> bool" where
  "is_print (Print m) = True"
| "is_print (PrintBytes m) = True"
| "is_print _ = False"

text \<open>The job filter conflict of the Command Validator.\<close>

definition job_filter_conflict :: "args \<Rightarrow> bool" where
  "job_filter_conflict a = (jobs_whitelist a \<noteq> [] \<and> jobs_blacklist a \<noteq> [])"

text \<open>
  The name argument, the primary identifying field and the local path of an evidence
  subcommand.
\<close>

fun command_name :: "command \<Rightarrow> string option" where
  "command_name (RawDiskCmd local_path mount_partition source name) = name"
| "command_name (ApfsCmd local_path recovery_key password source name) = name"
| "command_name (BitlockerCmd local_path recovery_key password source name) = name"
| "command_name (GoogleCloudDiskCmd disk_name project mount_partition zone source name) = name"
| "command_name (GoogleCloudDiskEmbeddedCmd embedded_path disk_name project mount_partition
                   zone source name) = name"
| "command_name (RawMemoryCmd local_path profile name module_list) = name"
| "command_name (DirectoryCmd local_path source name) = name"
| "command_name _ = None"

fun command_local_path :: "command \<Rightarrow> string option" where
  "command_local_path (RawDiskCmd local_path mount_partition source name) = Some local_path"
| "command_local_path (ApfsCmd local_path recovery_key password source name) = Some local_path"
| "command_local_path (BitlockerCmd local_path recovery_key password source name) =
     Some local_path"
| "command_local_path (RawMemoryCmd local_path profile name module_list) = Some local_path"
| "command_local_path (DirectoryCmd local_path source name) = Some local_path"
| "command_local_path _ = None"

fun command_disk_name :: "command \<Rightarrow> string option" where
  "command_disk_name (GoogleCloudDiskCmd disk_name project mount_partition zone source name) =
     Some disk_name"
| "command_disk_name (GoogleCloudDiskEmbeddedCmd embedded_path disk_name project
                        mount_partition zone source name) = Some disk_name"
| "command_disk_name _ = None"

definition primary_field :: "command \<Rightarrow> string option" where
  "primary_field c =
     (case command_local_path c of Some p \<Rightarrow> Some p | None \<Rightarrow> command_disk_name c)"

section \<open>Example invocations\<close>

definition default_args :: "command \<Rightarrow> args" where
  "default_args c =
     \<lparr>quiet = False, debug = False, all_fields = False, force_evidence = False,
      output_dir = None, log_file = None, arg_request_id = None, run_local = False,
      server = False, dump_json = False, filter_patterns_file = None,
      jobs_whitelist = [], jobs_blacklist = [], poll_interval = 60, task = None,
      wait = False, command = c\<rparr>"

text \<open>
  A deployment with project \<open>proj-b\<close> where every collaborator returns, no file exists,
  and the current directory is \<open>/home\<close>.
\<close>

definition example_env :: "bool \<Rightarrow> env" where
  "example_env shared =
     \<lparr>version = ''1'', TASK_MANAGER = ''PSQ'', SHARED_FILESYSTEM = shared,
      TURBINIA_PROJECT = ''proj-b'', TURBINIA_REGION = ''region'', INSTANCE_ID = ''instance'',
      getcwd = ''/home'', path_exists = (\<lambda>p. False), read_lines = (\<lambda>p. Inl ''Errno''),
      getuser = ''operator'', generated_id = ''0001'', returns = (\<lambda>c. True),
      result = (\<lambda>c. ''text'')\<rparr>"

definition rawdisk_example :: command where
  "rawdisk_example = RawDiskCmd ''/data/img.dd'' 1 None None"

definition rawdisk_relative_example :: command where
  "rawdisk_relative_example = RawDiskCmd ''img.dd'' 1 None None"

definition cloud_example :: "string \<Rightarrow> command" where
  "cloud_example project = GoogleCloudDiskCmd ''disk1'' project 0 ''zone'' None None"

definition status_example :: command where
  "status_example = StatusCmd False 0 False 20 False None None"

section \<open>Invariants of a run\<close>

text \<open>
  A run is fresh while it has no evidence and no request and has handed no request to a
  collaborator. A statement keeps a property when every state that has it still has it
  afterwards.
\<close>

definition fresh :: "state \<Rightarrow> bool" where
  "fresh s = (the_evidence s = None \<and> \<not> is_cloud_disk s \<and> request s = None
              \<and> (\<forall>ev \<in> set (trace s). event_request ev = None))"

definition keeps :: "(state \<Rightarrow> bool) \<Rightarrow> (state \<Rightarrow> state) \<Rightarrow> bool" where
  "keeps P f = (\<forall>s. P s \<longrightarrow> P (f s))"

definition no_wait :: "state \<Rightarrow> bool" where
  "no_wait s = (\<forall>ev \<in> set (trace s). \<not> is_wait_for_request ev)"

text \<open>
  Every request of the run was built by \<open>build_request\<close> from the command line, with the
  filter patterns the run has loaded.
\<close>

definition built :: "args \<Rightarrow> env \<Rightarrow> string list option \<Rightarrow> state \<Rightarrow> bool" where
  "built a e fp s =
     (filter_patterns s = fp \<and> (\<forall>r \<in> requests_of s. \<exists>ev. r = build_request a e ev fp))"

section \<open>Sequencing\<close>

lemma seq_halted: "halted s \<noteq> None \<Longrightarrow> seq fs s = s"
  by (cases fs) auto

lemma seq_append: "seq (fs @ gs) s = seq gs (seq fs s)"
  by (induction fs arbitrary: s) (auto simp: seq_halted)

lemmas prims = emit_def log_def sys_exit_def raise_def do_call_def skip_def init_state_def

lemma main_constructed:
  "main a e = seq [compatibility_gate a e, project_check a e, dispatch a e, run_local_task a e,
                   log INFO ''Done.'', sys_exit 0] (constructed a e)"
  unfolding main_def constructed_def validated_def
  by (simp only: seq_append [symmetric] append.simps)

lemma main_gated:
  "main a e = seq [dispatch a e, run_local_task a e, log INFO ''Done.'', sys_exit 0] (gated a e)"
  unfolding main_constructed gated_def
  by (simp only: seq_append [symmetric] append.simps)

lemma seq_invariant:
  assumes "\<And>f s. f \<in> set fs \<Longrightarrow> P s \<Longrightarrow> P (f s)" and "P s"
  shows "P (seq fs s)"
  using assms by (induction fs arbitrary: s) auto

lemma keeps_seq: "list_all (keeps P) fs \<Longrightarrow> keeps P (seq fs)"
  unfolding keeps_def list_all_iff using seq_invariant [of fs P] by blast

lemma keepsD: "keeps P f \<Longrightarrow> P s \<Longrightarrow> P (f s)"
  by (simp add: keeps_def)

lemma keeps_skip: "keeps P skip"
  by (simp add: keeps_def skip_def)

lemma seq_not_halted: "halted (seq fs s) = None \<Longrightarrow> halted s = None"
  by (cases "halted s") (auto simp: seq_halted)

lemma seq_ran:
  "halted (seq fs s) = None \<Longrightarrow> f \<in> set fs \<Longrightarrow> \<exists>s'. halted s' = None \<and> halted (f s') = None"
proof (induction fs arbitrary: s)
  case Nil
  then show ?case by simp
next
  case (Cons g gs)
  from Cons.prems(1) have s: "halted s = None" by (rule seq_not_halted)
  with Cons.prems(1) have rest: "halted (seq gs (g s)) = None" by simp
  then have g: "halted (g s) = None" by (rule seq_not_halted)
  show ?case
  proof (cases "f = g")
    case True
    with s g show ?thesis by blast
  next
    case False
    with Cons.prems(2) have "f \<in> set gs" by simp
    with rest Cons.IH show ?thesis by blast
  qed
qed

lemma fresh_prims:
  "fresh init_state"
  "keeps fresh (sys_exit n)"
  "keeps fresh (raise x)"
  "keeps fresh (log l m)"
  "keeps fresh (emit (SetLevel l))"
  "keeps fresh (emit (SetConfig k v))"
  "keeps fresh (emit (Print m))"
  "keeps fresh (do_call e LoadConfig)"
  "keeps fresh (do_call e LoggerSetup)"
  "keeps fresh (do_call e WorkerStart)"
  "keeps fresh (do_call e ServerStart)"
  "keeps fresh (do_call e (Construct c kw))"
  "keeps fresh (do_call e (ClientCall m kw))"
  "keeps fresh (\<lambda>s. s\<lparr>client := cl\<rparr>)"
  "keeps fresh (\<lambda>s. s\<lparr>filter_patterns := fp\<rparr>)"
  by (simp_all add: keeps_def fresh_def prims)

lemmas keeps_simps = keeps_seq keeps_skip fresh_prims

lemma fresh_stages:
  "keeps fresh (set_log_level a)"
  "keeps fresh (check_job_filters a)"
  "keeps fresh (load_filter_patterns a e)"
  "keeps fresh (make_client a e)"
  "keeps fresh (check_run_local a)"
  "keeps fresh (set_config a)"
  by (simp_all add: set_log_level_def check_job_filters_def load_filter_patterns_def
        make_client_def check_run_local_def set_config_def Let_def keeps_simps
        split: option.splits sum.splits del: seq.simps)

lemma fresh_validated: "fresh (validated a e)"
  unfolding validated_def
  by (rule keepsD [OF keeps_seq]) (simp_all add: fresh_stages fresh_prims)

lemma fresh_client_call: "keeps fresh (client_call e m kw)"
  by (simp add: keeps_def client_call_def on_client_def keepsD [OF fresh_prims(3)]
        keepsD [OF fresh_prims(13)] split: option.splits)

lemma fresh_print_client_call: "keeps fresh (print_client_call e m kw)"
  by (simp add: print_client_call_def fresh_client_call keeps_simps del: seq.simps)

lemma fresh_status:
  "keeps fresh (status_command a e ct dh pf fr tid u)"
  by (simp add: status_command_def Let_def fresh_client_call fresh_print_client_call keeps_simps
        del: seq.simps)

text \<open>Commands that are no evidence leave the run without evidence.\<close>

lemma fresh_other_commands:
  "primary_field c = None \<Longrightarrow> keeps fresh (run_command a e c)"
  by (cases c) (simp_all add: primary_field_def fresh_status fresh_client_call keeps_simps
        del: seq.simps)

text \<open>With both job filters given the run ends at line 320.\<close>

lemma conflict_main:
  assumes "job_filter_conflict a"
  shows "main a e =
           init_state
             \<lparr>trace := [SetLevel (if quiet a then ERROR else if debug a then DEBUG else INFO),
                        Log INFO (''Turbinia version: '' @ version e),
                        Log ERROR (''A Job filter whitelist and blacklist cannot be specified ''
                                   @ ''at the same time'')],
              halted := Some (Exit 1)\<rparr>"
  using assms
  by (simp add: main_def job_filter_conflict_def set_log_level_def check_job_filters_def prims)

section \<open>\<open>csv_list\<close> splits at commas\<close>

lemma split_sep_nonempty: "split_sep sep s \<noteq> []"
  by (induction s) (auto split: list.splits)

lemma join_split: "join_sep sep (split_sep sep s) = s"
proof (induction s)
  case Nil
  show ?case by simp
next
  case (Cons c cs)
  show ?case
  proof (cases "split_sep sep cs")
    case Nil
    with split_sep_nonempty show ?thesis by blast
  next
    case (Cons w ws)
    with Cons.IH show ?thesis by (cases ws) auto
  qed
qed

lemma split_no_sep: "w \<in> set (split_sep sep s) \<Longrightarrow> sep \<notin> set w"
  by (induction s arbitrary: w) (auto split: if_splits list.splits)

text \<open>
  Claim C10. For every string, \<open>csv_list\<close> returns its comma-split list: the pieces joined
  by commas give the string back and no piece holds a comma. The list is never empty,
  and the empty string gives the list whose one element is the empty string. Such a
  list counts as a supplied job filter: an option given as the empty string, together
  with the other option given as any string, is the conflict of line 316, and \<open>main\<close>
  exits with code 1.
\<close>

theorem csv_list_comma_split:
  "csv_list s \<noteq> [] \<and> join_sep (CHR '','') (csv_list s) = s
   \<and> (\<forall>w \<in> set (csv_list s). CHR '','' \<notin> set w)
   \<and> csv_list [] = [[]]
   \<and> (jobs_whitelist a = jobs_option (Some []) \<and> jobs_blacklist a = jobs_option (Some s)
        \<or> jobs_whitelist a = jobs_option (Some s) \<and> jobs_blacklist a = jobs_option (Some [])
      \<longrightarrow> halted (main a e) = Some (Exit 1)
          \<and> last (trace (main a e)) =
              Log ERROR (''A Job filter whitelist and blacklist cannot be specified ''
                         @ ''at the same time''))"
proof -
  have "jobs_whitelist a = jobs_option (Some []) \<and> jobs_blacklist a = jobs_option (Some s)
        \<or> jobs_whitelist a = jobs_option (Some s) \<and> jobs_blacklist a = jobs_option (Some [])
        \<Longrightarrow> job_filter_conflict a"
    using split_sep_nonempty [of "CHR '',''" s]
    by (auto simp: job_filter_conflict_def jobs_option_def csv_list_def)
  then show ?thesis
    by (auto simp: conflict_main csv_list_def split_sep_nonempty join_split split_no_sep)
qed

theorem csv_list_comma_split_witness:
  "csv_list ''a,b'' = [''a'', ''b'']
   \<and> ''a'' \<in> set (csv_list ''a,b'') \<and> CHR '','' \<notin> set ''a''
   \<and> jobs_whitelist ((default_args ListJobsCmd)
        \<lparr>jobs_whitelist := [[]], jobs_blacklist := [''a'', ''b'']\<rparr>) = jobs_option (Some [])
   \<and> jobs_blacklist ((default_args ListJobsCmd)
        \<lparr>jobs_whitelist := [[]], jobs_blacklist := [''a'', ''b'']\<rparr>) = jobs_option (Some ''a,b'')
   \<and> halted (main ((default_args ListJobsCmd)
        \<lparr>jobs_whitelist := [[]], jobs_blacklist := [''a'', ''b'']\<rparr>) (example_env True))
       = Some (Exit 1)"
  using csv_list_comma_split [of "''a,b''"
          "(default_args ListJobsCmd)\<lparr>jobs_whitelist := [[]], jobs_blacklist := [''a'', ''b'']\<rparr>"
          "example_env True"]
  by (simp add: csv_list_def jobs_option_def default_args_def)

section \<open>The state after validation and after the subcommand\<close>

lemma validated_passed:
  assumes "halted (validated a e) = None"
  shows "\<not> job_filter_conflict a"
    and "run_local a \<Longrightarrow> \<not> server a \<and> truthy (task a)"
proof -
  have "\<exists>s'. halted s' = None \<and> halted (check_job_filters a s') = None"
    using assms unfolding validated_def by (rule seq_ran) simp
  then show "\<not> job_filter_conflict a"
    by (auto simp: check_job_filters_def job_filter_conflict_def prims split: if_splits)
  have "\<exists>s'. halted s' = None \<and> halted (check_run_local a s') = None"
    using assms unfolding validated_def by (rule seq_ran) simp
  then show "run_local a \<Longrightarrow> \<not> server a \<and> truthy (task a)"
    by (auto simp: check_run_local_def Let_def prims split: if_splits)
qed

lemma client_validated:
  assumes "halted (validated a e) = None" and "\<not> is_worker_or_server (command a)"
  shows "client (validated a e) \<noteq> None"
proof -
  define s0 where "s0 = seq [set_log_level a, log INFO (''Turbinia version: '' @ version e),
      check_job_filters a, load_filter_patterns a e, do_call e LoadConfig] init_state"
  define s1 where "s1 = seq [make_client a e] s0"
  have v: "validated a e = seq [check_run_local a, set_config a] s1"
    unfolding validated_def s1_def s0_def by (simp only: seq_append [symmetric] append.simps)
  have "halted s1 = None \<longrightarrow> client s1 \<noteq> None"
    using assms(2) unfolding s1_def
    by (auto simp: make_client_def prims split: if_splits)
  moreover have "keeps (\<lambda>s. halted s = None \<longrightarrow> client s \<noteq> None)
                   (seq [check_run_local a, set_config a])"
    by (rule keeps_seq)
       (simp add: keeps_def check_run_local_def set_config_def Let_def prims)
  ultimately have "halted (seq [check_run_local a, set_config a] s1) = None
             \<longrightarrow> client (seq [check_run_local a, set_config a] s1) \<noteq> None"
    by (rule keepsD [rotated])
  with assms(1) v show ?thesis by simp
qed

lemma run_command_evidence:
  assumes "fresh s" and "halted s = None" and "the_evidence (run_command a e c s) = Some ev"
  shows "halted (run_command a e c s) = None"
    and "is_cloud_disk (run_command a e c s) = cloud_only ev"
    and "cloud_only ev \<Longrightarrow> evidence_project ev \<noteq> None"
    and "trace (run_command a e c s) = trace s"
    and "client (run_command a e c s) = client s"
    and "request (run_command a e c s) = None"
    and "filter_patterns (run_command a e c s) = filter_patterns s"
    and "\<not> is_worker_or_server c"
    and "Some (evidence_name ev) = map_option (default_name (command_name c)) (primary_field c)"
    and "evidence_local_path ev = map_option (abspath (getcwd e)) (command_local_path c)"
    and "cloud_only ev = (command_disk_name c \<noteq> None)"
proof -
  have other: "primary_field c \<noteq> None"
  proof
    assume "primary_field c = None"
    then have "fresh (run_command a e c s)"
      using assms(1) by (simp add: keepsD [OF fresh_other_commands])
    with assms(3) show False by (simp add: fresh_def)
  qed
  have "halted (run_command a e c s) = None
    \<and> is_cloud_disk (run_command a e c s) = cloud_only ev
    \<and> (cloud_only ev \<longrightarrow> evidence_project ev \<noteq> None)
    \<and> trace (run_command a e c s) = trace s
    \<and> client (run_command a e c s) = client s
    \<and> request (run_command a e c s) = None
    \<and> filter_patterns (run_command a e c s) = filter_patterns s
    \<and> \<not> is_worker_or_server c
    \<and> Some (evidence_name ev) = map_option (default_name (command_name c)) (primary_field c)
    \<and> evidence_local_path ev = map_option (abspath (getcwd e)) (command_local_path c)
    \<and> cloud_only ev = (command_disk_name c \<noteq> None)"
    using assms other
    by (cases c)
       (auto simp: fresh_def primary_field_def set_evidence_def set_cloud_disk_def
          encrypted_disk_def is_worker_or_server_def prims split: if_splits)
  then show "halted (run_command a e c s) = None"
    and "is_cloud_disk (run_command a e c s) = cloud_only ev"
    and "cloud_only ev \<Longrightarrow> evidence_project ev \<noteq> None"
    and "trace (run_command a e c s) = trace s"
    and "client (run_command a e c s) = client s"
    and "request (run_command a e c s) = None"
    and "filter_patterns (run_command a e c s) = filter_patterns s"
    and "\<not> is_worker_or_server c"
    and "Some (evidence_name ev) = map_option (default_name (command_name c)) (primary_field c)"
    and "evidence_local_path ev = map_option (abspath (getcwd e)) (command_local_path c)"
    and "cloud_only ev = (command_disk_name c \<noteq> None)"
    by simp_all
qed

lemma constructed_cases:
  "constructed a e =
     (if halted (validated a e) = None then run_command a e (command a) (validated a e)
      else validated a e)"
  by (simp add: constructed_def)

lemma constructed_evidence:
  assumes "the_evidence (constructed a e) = Some ev"
  shows "halted (validated a e) = None"
    and "constructed a e = run_command a e (command a) (validated a e)"
    and "halted (constructed a e) = None"
    and "is_cloud_disk (constructed a e) = cloud_only ev"
    and "cloud_only ev \<Longrightarrow> evidence_project ev \<noteq> None"
    and "trace (constructed a e) = trace (validated a e)"
    and "client (constructed a e) \<noteq> None"
    and "request (constructed a e) = None"
proof -
  show v: "halted (validated a e) = None"
    using assms fresh_validated [of a e]
    by (cases "halted (validated a e)") (auto simp: constructed_cases fresh_def)
  then show c: "constructed a e = run_command a e (command a) (validated a e)"
    by (simp add: constructed_cases)
  note rc = run_command_evidence [OF fresh_validated v assms [unfolded c]]
  from rc(1) show "halted (constructed a e) = None" by (simp add: c)
  from rc(2) show "is_cloud_disk (constructed a e) = cloud_only ev" by (simp add: c)
  from rc(3) show "cloud_only ev \<Longrightarrow> evidence_project ev \<noteq> None" .
  from rc(4) show "trace (constructed a e) = trace (validated a e)" by (simp add: c)
  from rc(5) rc(8) client_validated [OF v] show "client (constructed a e) \<noteq> None"
    by (simp add: c)
  from rc(6) show "request (constructed a e) = None" by (simp add: c)
qed

section \<open>The Compatibility Gate\<close>

text \<open>
  Claim C1, as the code has it. The claim reads the deployment mode the other way round
  and denies the force flag any effect; lines 465 to 470 do this instead. On a
  deployment whose \<open>SHARED_FILESYSTEM\<close> is true, a run that has constructed evidence ends
  at the mode check, with exit code 1 and the error that the evidence type is Cloud only,
  when the evidence is \<open>cloud_only\<close> and \<open>--force_evidence\<close> is not given. Evidence that is
  not \<open>cloud_only\<close> passes the check unchanged, and so does any evidence under
  \<open>--force_evidence\<close>.
\<close>

theorem shared_filesystem_gate:
  assumes "the_evidence (constructed a e) = Some ev" and "SHARED_FILESYSTEM e"
  shows "(cloud_only ev \<and> \<not> force_evidence a \<longrightarrow>
            halted (main a e) = Some (Exit 1)
            \<and> trace (main a e) = trace (constructed a e) @
                [Log ERROR (''The evidence type '' @ evidence_type ev
                            @ '' is Cloud only, and this instance of ''
                            @ ''Turbinia is not a cloud instance.'')])
       \<and> (\<not> cloud_only ev \<or> force_evidence a \<longrightarrow>
            compatibility_gate a e (constructed a e) = constructed a e)"
  using assms constructed_evidence(3) [OF assms(1)]
  by (simp add: main_constructed compatibility_gate_def prims)

theorem shared_filesystem_gate_witness:
  "the_evidence (constructed (default_args (cloud_example ''proj-b'')) (example_env True))
     = Some (GoogleCloudDisk ''disk1'' ''disk1'' ''proj-b'' 0 ''zone'' None)
   \<and> SHARED_FILESYSTEM (example_env True)
   \<and> cloud_only (GoogleCloudDisk ''disk1'' ''disk1'' ''proj-b'' 0 ''zone'' None)
   \<and> \<not> force_evidence (default_args (cloud_example ''proj-b''))
   \<and> halted (main (default_args (cloud_example ''proj-b'')) (example_env True)) = Some (Exit 1)
   \<and> force_evidence ((default_args (cloud_example ''proj-b''))\<lparr>force_evidence := True\<rparr>)
   \<and> compatibility_gate ((default_args (cloud_example ''proj-b''))\<lparr>force_evidence := True\<rparr>)
        (example_env True)
        (constructed ((default_args (cloud_example ''proj-b''))\<lparr>force_evidence := True\<rparr>)
           (example_env True))
      = constructed ((default_args (cloud_example ''proj-b''))\<lparr>force_evidence := True\<rparr>)
          (example_env True)"
  using shared_filesystem_gate [of "default_args (cloud_example ''proj-b'')" "example_env True"
          "GoogleCloudDisk ''disk1'' ''disk1'' ''proj-b'' 0 ''zone'' None"]
        shared_filesystem_gate [of "(default_args (cloud_example ''proj-b''))\<lparr>force_evidence := True\<rparr>"
          "example_env True" "GoogleCloudDisk ''disk1'' ''disk1'' ''proj-b'' 0 ''zone'' None"]
  by code_simp

text \<open>
  The claim as stated fails: a raw disk on a deployment with a shared file system passes
  the mode check, and the run ends with exit code 0.
\<close>

theorem shared_filesystem_gate_counterexample:
  "the_evidence (constructed (default_args rawdisk_example) (example_env True))
     = Some (RawDisk ''/data/img.dd'' ''/data/img.dd'' 1 None)
   \<and> \<not> cloud_only (RawDisk ''/data/img.dd'' ''/data/img.dd'' 1 None)
   \<and> SHARED_FILESYSTEM (example_env True)
   \<and> compatibility_gate (default_args rawdisk_example) (example_env True)
        (constructed (default_args rawdisk_example) (example_env True))
      = constructed (default_args rawdisk_example) (example_env True)
   \<and> halted (main (default_args rawdisk_example) (example_env True)) = Some (Exit 0)"
  by code_simp

text \<open>
  Claim C2, as the code has it (lines 471 to 477). On a deployment whose
  \<open>SHARED_FILESYSTEM\<close> is false, a run that has constructed evidence ends at the mode check,
  with exit code 1 and the advice to wrap the evidence in a
  \<open>GoogleCloudDiskRawEmbedded\<close>, when the evidence is not \<open>cloud_only\<close> and
  \<open>--force_evidence\<close> is not given. Evidence that is \<open>cloud_only\<close> passes the check
  unchanged, and so does any evidence under \<open>--force_evidence\<close>.
\<close>

theorem local_filesystem_gate:
  assumes "the_evidence (constructed a e) = Some ev" and "\<not> SHARED_FILESYSTEM e"
  shows "(\<not> cloud_only ev \<and> \<not> force_evidence a \<longrightarrow>
            halted (main a e) = Some (Exit 1)
            \<and> trace (main a e) = trace (constructed a e) @
                [Log ERROR (''The evidence type '' @ evidence_type ev
                            @ '' cannot run on Cloud instances of ''
                            @ ''Turbinia. Consider wrapping it in a ''
                            @ ''GoogleCloudDiskRawEmbedded or other Cloud compatible ''
                            @ ''object'')])
       \<and> (cloud_only ev \<or> force_evidence a \<longrightarrow>
            compatibility_gate a e (constructed a e) = constructed a e)"
  using assms constructed_evidence(3) [OF assms(1)]
  by (simp add: main_constructed compatibility_gate_def prims)

theorem local_filesystem_gate_witness:
  "the_evidence (constructed (default_args rawdisk_example) (example_env False))
     = Some (RawDisk ''/data/img.dd'' ''/data/img.dd'' 1 None)
   \<and> \<not> SHARED_FILESYSTEM (example_env False)
   \<and> \<not> cloud_only (RawDisk ''/data/img.dd'' ''/data/img.dd'' 1 None)
   \<and> \<not> force_evidence (default_args rawdisk_example)
   \<and> halted (main (default_args rawdisk_example) (example_env False)) = Some (Exit 1)
   \<and> force_evidence ((default_args rawdisk_example)\<lparr>force_evidence := True\<rparr>)
   \<and> compatibility_gate ((default_args rawdisk_example)\<lparr>force_evidence := True\<rparr>)
        (example_env False)
        (constructed ((default_args rawdisk_example)\<lparr>force_evidence := True\<rparr>)
           (example_env False))
      = constructed ((default_args rawdisk_example)\<lparr>force_evidence := True\<rparr>)
          (example_env False)"
  using local_filesystem_gate [of "default_args rawdisk_example" "example_env False"
          "RawDisk ''/data/img.dd'' ''/data/img.dd'' 1 None"]
        local_filesystem_gate [of "(default_args rawdisk_example)\<lparr>force_evidence := True\<rparr>"
          "example_env False" "RawDisk ''/data/img.dd'' ''/data/img.dd'' 1 None"]
  by code_simp

text \<open>
  The claim as stated fails: a cloud disk of the deployment's own project, on a
  deployment without a shared file system, passes the mode and the project check, and the run
  ends with exit code 0.
\<close>

theorem local_filesystem_gate_counterexample:
  "the_evidence (constructed (default_args (cloud_example ''proj-b'')) (example_env False))
     = Some (GoogleCloudDisk ''disk1'' ''disk1'' ''proj-b'' 0 ''zone'' None)
   \<and> cloud_only (GoogleCloudDisk ''disk1'' ''disk1'' ''proj-b'' 0 ''zone'' None)
   \<and> \<not> SHARED_FILESYSTEM (example_env False)
   \<and> gated (default_args (cloud_example ''proj-b'')) (example_env False)
      = constructed (default_args (cloud_example ''proj-b'')) (example_env False)
   \<and> halted (main (default_args (cloud_example ''proj-b'')) (example_env False)) = Some (Exit 0)"
  by code_simp

text \<open>
  Claim C3, as the code has it. A run has constructed cloud evidence whose project
  differs from the deployment's. Without \<open>--force_evidence\<close> the run ends with exit code
  1: on a deployment whose \<open>SHARED_FILESYSTEM\<close> is false the last thing logged is the
  error that names both projects and suggests \<open>--force_evidence\<close>; on one whose
  \<open>SHARED_FILESYSTEM\<close> is true the mode check of lines 465 to 470 fires first, and the
  last thing logged is its error that the evidence type is Cloud only. With
  \<open>--force_evidence\<close> the project check logs the text that names both projects as a
  warning and nothing else, the run goes on, and \<open>dispatch\<close> runs on the resulting state.
\<close>

theorem project_mismatch:
  assumes "the_evidence (constructed a e) = Some ev" and "evidence_project ev = Some p"
    and "p \<noteq> TURBINIA_PROJECT e"
  shows "(\<not> force_evidence a \<longrightarrow>
            halted (main a e) = Some (Exit 1)
            \<and> (\<not> SHARED_FILESYSTEM e \<longrightarrow>
                 trace (main a e) = trace (constructed a e) @
                   [Log ERROR (project_msg e p
                      @ '' Use --force_evidence if you are sure you want to do this.'')])
            \<and> (SHARED_FILESYSTEM e \<longrightarrow>
                 trace (main a e) = trace (constructed a e) @
                   [Log ERROR (''The evidence type '' @ evidence_type ev
                               @ '' is Cloud only, and this instance of ''
                               @ ''Turbinia is not a cloud instance.'')]))
       \<and> (force_evidence a \<longrightarrow>
            gated a e = log WARNING (project_msg e p) (constructed a e)
            \<and> halted (gated a e) = None
            \<and> main a e = seq [run_local_task a e, log INFO ''Done.'', sys_exit 0]
                           (dispatch a e (gated a e)))"
proof -
  from assms(2) have cloud: "cloud_only ev" by (cases ev) simp_all
  note c = constructed_evidence(3,4) [OF assms(1)]
  show ?thesis
  proof (cases "force_evidence a")
    case True
    with assms c cloud have g: "gated a e = log WARNING (project_msg e p) (constructed a e)"
      by (simp add: gated_def compatibility_gate_def project_check_def prims)
    with c have "halted (gated a e) = None" by (simp add: prims)
    with True g show ?thesis by (simp add: main_gated)
  next
    case False
    with assms c cloud show ?thesis
      by (cases "SHARED_FILESYSTEM e")
         (simp_all add: main_constructed compatibility_gate_def project_check_def prims)
  qed
qed

theorem project_mismatch_witness:
  "the_evidence (constructed (default_args (cloud_example ''proj-a'')) (example_env False))
     = Some (GoogleCloudDisk ''disk1'' ''disk1'' ''proj-a'' 0 ''zone'' None)
   \<and> evidence_project (GoogleCloudDisk ''disk1'' ''disk1'' ''proj-a'' 0 ''zone'' None)
       = Some ''proj-a''
   \<and> ''proj-a'' \<noteq> TURBINIA_PROJECT (example_env False)
   \<and> \<not> force_evidence (default_args (cloud_example ''proj-a''))
   \<and> \<not> SHARED_FILESYSTEM (example_env False)
   \<and> halted (main (default_args (cloud_example ''proj-a'')) (example_env False)) = Some (Exit 1)
   \<and> force_evidence ((default_args (cloud_example ''proj-a''))\<lparr>force_evidence := True\<rparr>)
   \<and> halted (gated ((default_args (cloud_example ''proj-a''))\<lparr>force_evidence := True\<rparr>)
                (example_env False)) = None
   \<and> halted (main ((default_args (cloud_example ''proj-a''))\<lparr>force_evidence := True\<rparr>)
                (example_env False)) = Some (Exit 0)"
  using project_mismatch [of "default_args (cloud_example ''proj-a'')" "example_env False"
          "GoogleCloudDisk ''disk1'' ''disk1'' ''proj-a'' 0 ''zone'' None" "''proj-a''"]
        project_mismatch [of "(default_args (cloud_example ''proj-a''))\<lparr>force_evidence := True\<rparr>"
          "example_env False" "GoogleCloudDisk ''disk1'' ''disk1'' ''proj-a'' 0 ''zone'' None"
          "''proj-a''"]
  by code_simp

text \<open>
  The claim as stated fails on a deployment with a shared file system: for a cloud disk
  of project \<open>proj-a\<close> there, without \<open>--force_evidence\<close>, the run ends with exit code 1 at
  line 470, its last log line is the Cloud only error, and the error that suggests
  \<open>--force_evidence\<close> is never logged.
\<close>

theorem project_mismatch_counterexample:
  "the_evidence (constructed (default_args (cloud_example ''proj-a'')) (example_env True))
     = Some (GoogleCloudDisk ''disk1'' ''disk1'' ''proj-a'' 0 ''zone'' None)
   \<and> evidence_project (GoogleCloudDisk ''disk1'' ''disk1'' ''proj-a'' 0 ''zone'' None)
       = Some ''proj-a''
   \<and> ''proj-a'' \<noteq> TURBINIA_PROJECT (example_env True)
   \<and> \<not> force_evidence (default_args (cloud_example ''proj-a''))
   \<and> halted (main (default_args (cloud_example ''proj-a'')) (example_env True)) = Some (Exit 1)
   \<and> last (trace (main (default_args (cloud_example ''proj-a'')) (example_env True)))
       = Log ERROR (''The evidence type GoogleCloudDisk is Cloud only, and this instance of ''
                    @ ''Turbinia is not a cloud instance.'')
   \<and> Log ERROR (project_msg (example_env True) ''proj-a''
                  @ '' Use --force_evidence if you are sure you want to do this.'')
       \<notin> set (trace (main (default_args (cloud_example ''proj-a'')) (example_env True)))"
  by code_simp

section \<open>The Evidence Factory\<close>

text \<open>
  Claim C5, as the code has it (lines 363 to 411). When no display name is supplied, the
  name of the constructed evidence is the primary identifying field of the subcommand
  exactly as it was supplied: \<open>local_path\<close> for the variants backed by a disk or a file,
  \<open>disk_name\<close> for the cloud variants. The absolute path is taken afterwards and stored
  in the \<open>local_path\<close> attribute only. For a \<open>rawdisk\<close> command the evidence is a
  \<open>RawDisk\<close> with these two attributes, and it is not \<open>cloud_only\<close>.
\<close>

theorem default_name_is_primary_field:
  assumes "the_evidence (constructed a e) = Some ev"
    and "\<not> truthy (command_name (command a))"
  shows "Some (evidence_name ev) = primary_field (command a)
       \<and> evidence_local_path ev = map_option (abspath (getcwd e)) (command_local_path (command a))
       \<and> cloud_only ev = (command_disk_name (command a) \<noteq> None)
       \<and> (command a = RawDiskCmd local_path mount_partition source name \<longrightarrow>
            ev = RawDisk local_path (abspath (getcwd e) local_path) mount_partition source
            \<and> \<not> cloud_only ev)"
proof -
  note v = constructed_evidence(1,2) [OF assms(1)]
  note rc = run_command_evidence [OF fresh_validated v(1) assms(1) [unfolded v(2)]]
  have "default_name (command_name (command a)) = (\<lambda>x. x)"
    using assms(2) by (simp add: default_name_def fun_eq_iff)
  with rc(9) have "Some (evidence_name ev) = primary_field (command a)"
    by (simp add: option.map_ident)
  moreover have "command a = RawDiskCmd local_path mount_partition source name \<longrightarrow>
            ev = RawDisk local_path (abspath (getcwd e) local_path) mount_partition source
            \<and> \<not> cloud_only ev"
    using assms v by (auto simp: set_evidence_def default_name_def)
  ultimately show ?thesis using rc(10,11) by simp
qed

theorem default_name_is_primary_field_witness:
  "the_evidence (constructed (default_args rawdisk_example) (example_env False))
     = Some (RawDisk ''/data/img.dd'' ''/data/img.dd'' 1 None)
   \<and> \<not> truthy (command_name (command (default_args rawdisk_example)))
   \<and> command (default_args rawdisk_example) = RawDiskCmd ''/data/img.dd'' 1 None None
   \<and> evidence_name (RawDisk ''/data/img.dd'' ''/data/img.dd'' 1 None) = ''/data/img.dd''
   \<and> abspath (getcwd (example_env False)) ''/data/img.dd'' = ''/data/img.dd''
   \<and> \<not> cloud_only (RawDisk ''/data/img.dd'' ''/data/img.dd'' 1 None)"
  using default_name_is_primary_field [of "default_args rawdisk_example" "example_env False"
          "RawDisk ''/data/img.dd'' ''/data/img.dd'' 1 None" "''/data/img.dd''" 1 None None]
  by code_simp

text \<open>
  The claim as stated fails on a relative path: in the directory \<open>/home\<close>, the evidence of
  \<open>rawdisk -l img.dd\<close> is named \<open>img.dd\<close>, while the normalised path is \<open>/home/img.dd\<close>.
\<close>

theorem default_name_is_primary_field_counterexample:
  "command (default_args rawdisk_relative_example) = RawDiskCmd ''img.dd'' 1 None None
   \<and> the_evidence (main (default_args rawdisk_relative_example) (example_env False))
     = Some (RawDisk ''img.dd'' ''/home/img.dd'' 1 None)
   \<and> evidence_name (RawDisk ''img.dd'' ''/home/img.dd'' 1 None) = ''img.dd''
   \<and> abspath (getcwd (example_env False)) ''img.dd'' = ''/home/img.dd''
   \<and> evidence_name (RawDisk ''img.dd'' ''/home/img.dd'' 1 None)
       \<noteq> abspath (getcwd (example_env False)) ''img.dd''"
  by code_simp

section \<open>After the Compatibility Gate\<close>

text \<open>The mode check and the project check only log and end the run.\<close>

lemma gated_fields:
  "the_evidence (gated a e) = the_evidence (constructed a e)"
  "client (gated a e) = client (constructed a e)"
  "request (gated a e) = request (constructed a e)"
  "filter_patterns (gated a e) = filter_patterns (constructed a e)"
  "is_cloud_disk (gated a e) = is_cloud_disk (constructed a e)"
  by (simp_all add: gated_def compatibility_gate_def project_check_def prims
        split: option.splits)

lemma gated_halted:
  assumes "the_evidence (constructed a e) = Some ev"
  shows "halted (gated a e) = None \<or> halted (gated a e) = Some (Exit 1)"
  using constructed_evidence(3,4,5) [OF assms] assms
  by (auto simp: gated_def compatibility_gate_def project_check_def prims
        split: option.splits)

section \<open>\<open>--run_local\<close> and cloud evidence\<close>

text \<open>
  Claim C8, as the code has it. A run with \<open>--run_local\<close> that has constructed
  \<open>cloud_only\<close> evidence ends with exit code 1 whenever \<open>--dump_json\<close> is not given and
  the collaborators it calls on the way return: the Compatibility Gate may end it, and if it
  lets it through, the check of lines 543 to 545 does, with its own error as the last
  thing logged. The task name is present in every such run, line 352 having required
  it.
\<close>

theorem run_local_cloud_only:
  assumes "the_evidence (constructed a e) = Some ev" and "cloud_only ev"
    and "run_local a" and "\<not> dump_json a" and "\<forall>c. returns e c"
  shows "halted (main a e) = Some (Exit 1)
       \<and> (halted (gated a e) = None \<longrightarrow>
            last (trace (main a e)) =
              Log ERROR ''--run_local cannot be used with Cloud only Evidence types'')"
proof -
  note c = constructed_evidence [OF assms(1)]
  from validated_passed(2) [OF c(1) assms(3)] have srv: "\<not> server a" by simp
  from c(7) obtain cl where cl: "client (gated a e) = Some cl"
    by (auto simp: gated_fields)
  have ev: "the_evidence (gated a e) = Some ev"
    using assms(1) by (simp add: gated_fields)
  from gated_halted [OF assms(1)] show ?thesis
  proof
    assume "halted (gated a e) = Some (Exit 1)"
    then show ?thesis by (simp add: main_gated)
  next
    assume "halted (gated a e) = None"
    with srv cl ev assms(2-5) show ?thesis
      by (simp add: main_gated dispatch_def submit_def run_local_task_def client_call_def
            print_client_call_def on_client_def prims Let_def)
  qed
qed

theorem run_local_cloud_only_witness:
  "the_evidence (constructed ((default_args (cloud_example ''proj-b''))
       \<lparr>run_local := True, task := Some ''T'', wait := True\<rparr>) (example_env False))
     = Some (GoogleCloudDisk ''disk1'' ''disk1'' ''proj-b'' 0 ''zone'' None)
   \<and> cloud_only (GoogleCloudDisk ''disk1'' ''disk1'' ''proj-b'' 0 ''zone'' None)
   \<and> run_local ((default_args (cloud_example ''proj-b''))
       \<lparr>run_local := True, task := Some ''T'', wait := True\<rparr>)
   \<and> \<not> dump_json ((default_args (cloud_example ''proj-b''))
       \<lparr>run_local := True, task := Some ''T'', wait := True\<rparr>)
   \<and> (\<forall>c. returns (example_env False) c)
   \<and> halted (main ((default_args (cloud_example ''proj-b''))
       \<lparr>run_local := True, task := Some ''T'', wait := True\<rparr>) (example_env False))
      = Some (Exit 1)"
proof -
  have h1: "the_evidence (constructed ((default_args (cloud_example ''proj-b''))
       \<lparr>run_local := True, task := Some ''T'', wait := True\<rparr>) (example_env False))
     = Some (GoogleCloudDisk ''disk1'' ''disk1'' ''proj-b'' 0 ''zone'' None)"
    by code_simp
  have h2: "cloud_only (GoogleCloudDisk ''disk1'' ''disk1'' ''proj-b'' 0 ''zone'' None)"
    by simp
  have h3: "run_local ((default_args (cloud_example ''proj-b''))
       \<lparr>run_local := True, task := Some ''T'', wait := True\<rparr>)"
    by simp
  have h4: "\<not> dump_json ((default_args (cloud_example ''proj-b''))
       \<lparr>run_local := True, task := Some ''T'', wait := True\<rparr>)"
    by (simp add: default_args_def)
  have h5: "\<forall>c. returns (example_env False) c"
    by (simp add: example_env_def)
  from run_local_cloud_only [OF h1 h2 h3 h4 h5] h1 h2 h3 h4 h5 show ?thesis
    by blast
qed

text \<open>
  The claim as stated fails under \<open>--dump_json\<close>: the request is printed and the run ends
  with exit code 0 at line 513, before the check of line 543 is reached.
\<close>

theorem run_local_cloud_only_counterexample:
  "the_evidence (constructed ((default_args (cloud_example ''proj-b''))
       \<lparr>run_local := True, task := Some ''T'', dump_json := True\<rparr>) (example_env False))
     = Some (GoogleCloudDisk ''disk1'' ''disk1'' ''proj-b'' 0 ''zone'' None)
   \<and> cloud_only (GoogleCloudDisk ''disk1'' ''disk1'' ''proj-b'' 0 ''zone'' None)
   \<and> run_local ((default_args (cloud_example ''proj-b''))
       \<lparr>run_local := True, task := Some ''T'', dump_json := True\<rparr>)
   \<and> truthy (task ((default_args (cloud_example ''proj-b''))
       \<lparr>run_local := True, task := Some ''T'', dump_json := True\<rparr>))
   \<and> halted (main ((default_args (cloud_example ''proj-b''))
       \<lparr>run_local := True, task := Some ''T'', dump_json := True\<rparr>) (example_env False))
      = Some (Exit 0)"
  by code_simp

section \<open>\<open>status --wait\<close> without a request\<close>

text \<open>Validation never calls the Completion Waiter.\<close>

lemma no_wait_prims:
  "no_wait init_state"
  "keeps no_wait (sys_exit n)"
  "keeps no_wait (raise x)"
  "keeps no_wait (log l m)"
  "keeps no_wait (emit (SetLevel l))"
  "keeps no_wait (emit (SetConfig k v))"
  "keeps no_wait (do_call e LoadConfig)"
  "keeps no_wait (do_call e (Construct c kw))"
  "keeps no_wait (\<lambda>s. s\<lparr>client := cl\<rparr>)"
  "keeps no_wait (\<lambda>s. s\<lparr>filter_patterns := fp\<rparr>)"
  by (simp_all add: keeps_def no_wait_def prims)

lemma no_wait_validated: "no_wait (validated a e)"
  unfolding validated_def
  by (rule keepsD [OF keeps_seq])
     (simp_all add: set_log_level_def check_job_filters_def load_filter_patterns_def
        make_client_def check_run_local_def set_config_def Let_def keeps_seq keeps_skip
        no_wait_prims split: option.splits sum.splits del: seq.simps)

text \<open>
  Claim C9, as the code has it (lines 442 to 458, 540 to 551). A \<open>status\<close> command
  without \<open>--close_tasks\<close> and without \<open>--run_local\<close> has passed validation, \<open>--wait\<close> is
  set and no request id is supplied. Then \<open>wait_for_request\<close> is never called, the
  diagnostic is logged in its place, the status is asked for and, once that call
  returns, printed, and the run ends with \<open>Done.\<close> and exit code 0.
\<close>

theorem status_wait_without_request_id:
  assumes "command a = StatusCmd False days_history force priority_filter full_report task_id user"
    and "wait a" and "\<not> truthy (arg_request_id a)" and "\<not> run_local a"
    and "halted (validated a e) = None"
    and "returns e (ClientCall ''format_task_status''
           (status_kwargs a e days_history priority_filter full_report task_id user))"
  shows "halted (main a e) = Some (Exit 0)
       \<and> trace (main a e) = trace (validated a e) @
           [Log INFO (''--wait requires --request_id, which is not specified. ''
                      @ ''turbiniactl will exit without waiting.''),
            Call (ClientCall ''format_task_status''
                    (status_kwargs a e days_history priority_filter full_report task_id user)),
            Print (result e (ClientCall ''format_task_status''
                    (status_kwargs a e days_history priority_filter full_report task_id user))),
            Log INFO ''Done.'']
       \<and> (\<forall>ev \<in> set (trace (main a e)). \<not> is_wait_for_request ev)"
proof -
  let ?v = "validated a e"
  have "\<not> is_worker_or_server (command a)"
    by (simp add: assms(1) is_worker_or_server_def)
  from client_validated [OF assms(5) this] obtain cl where cl: "client ?v = Some cl"
    by auto
  from fresh_validated [of a e] have fr: "the_evidence ?v = None" "\<not> is_cloud_disk ?v"
    by (simp_all add: fresh_def)
  from no_wait_validated [of a e] have nw: "\<forall>ev \<in> set (trace ?v). \<not> is_wait_for_request ev"
    by (simp add: no_wait_def)
  show ?thesis
    using assms cl fr nw
    by (simp add: main_constructed constructed_def status_command_def Let_def
          print_client_call_def client_call_def on_client_def compatibility_gate_def
          project_check_def dispatch_def run_local_task_def prims)
qed

theorem status_wait_without_request_id_witness:
  "command ((default_args status_example)\<lparr>wait := True\<rparr>) = StatusCmd False 0 False 20 False None None
   \<and> wait ((default_args status_example)\<lparr>wait := True\<rparr>)
   \<and> \<not> truthy (arg_request_id ((default_args status_example)\<lparr>wait := True\<rparr>))
   \<and> \<not> run_local ((default_args status_example)\<lparr>wait := True\<rparr>)
   \<and> halted (validated ((default_args status_example)\<lparr>wait := True\<rparr>) (example_env True)) = None
   \<and> returns (example_env True) (ClientCall ''format_task_status''
         (status_kwargs ((default_args status_example)\<lparr>wait := True\<rparr>) (example_env True)
            0 20 False None None))
   \<and> halted (main ((default_args status_example)\<lparr>wait := True\<rparr>) (example_env True))
       = Some (Exit 0)
   \<and> list_all (\<lambda>ev. \<not> is_wait_for_request ev)
        (trace (main ((default_args status_example)\<lparr>wait := True\<rparr>) (example_env True)))"
  using status_wait_without_request_id [of "(default_args status_example)\<lparr>wait := True\<rparr>"
          0 False 20 False None None "example_env True"]
  by code_simp

text \<open>
  The claim as stated fails when \<open>--run_local\<close> and a task are given as well: the
  diagnostic and the status are printed, then line 540 finds no evidence and the run
  ends with exit code 1. Under \<open>--close_tasks\<close> the run ends at lines 428 to 440, before
  line 442.
\<close>

theorem status_wait_without_request_id_counterexample:
  "command ((default_args status_example)\<lparr>wait := True, run_local := True, task := Some ''T''\<rparr>)
     = StatusCmd False 0 False 20 False None None
   \<and> wait ((default_args status_example)\<lparr>wait := True, run_local := True, task := Some ''T''\<rparr>)
   \<and> arg_request_id ((default_args status_example)
        \<lparr>wait := True, run_local := True, task := Some ''T''\<rparr>) = None
   \<and> halted (main ((default_args status_example)
        \<lparr>wait := True, run_local := True, task := Some ''T''\<rparr>) (example_env True))
      = Some (Exit 1)
   \<and> last (trace (main ((default_args status_example)
        \<lparr>wait := True, run_local := True, task := Some ''T''\<rparr>) (example_env True)))
      = Log ERROR ''Evidence must be specified if using --run_local''"
  by code_simp

section \<open>The requests of a run\<close>

lemma main_validated:
  "main a e = seq [run_command a e (command a), compatibility_gate a e, project_check a e,
                   dispatch a e, run_local_task a e, log INFO ''Done.'', sys_exit 0]
                (validated a e)"
  unfolding main_def validated_def
  by (simp only: seq_append [symmetric] append.simps)

lemma requests_of_simps:
  "requests_of (emit ev s) = requests_of s \<union> set_option (event_request ev)"
  "requests_of (s\<lparr>halted := h\<rparr>) = requests_of s"
  "requests_of (s\<lparr>client := cl\<rparr>) = requests_of s"
  "requests_of (s\<lparr>the_evidence := x\<rparr>) = requests_of s"
  "requests_of (s\<lparr>is_cloud_disk := b\<rparr>) = requests_of s"
  "requests_of (s\<lparr>request := Some r\<rparr>) = insert r (set (List.map_filter event_request (trace s)))"
  by (auto simp: requests_of_def emit_def List.map_filter_def split: option.splits)

lemma emit_fields [simp]:
  "halted (emit ev s) = halted s"
  "filter_patterns (emit ev s) = filter_patterns s"
  "client (emit ev s) = client s"
  "the_evidence (emit ev s) = the_evidence s"
  "is_cloud_disk (emit ev s) = is_cloud_disk s"
  "request (emit ev s) = request s"
  "trace (emit ev s) = trace s @ [ev]"
  by (simp_all add: emit_def)

lemma built_prims:
  "keeps (built a e fp) (sys_exit n)"
  "keeps (built a e fp) (raise x)"
  "keeps (built a e fp) (log l m)"
  "keeps (built a e fp) (emit (Print m))"
  "keeps (built a e fp) (do_call e' LoadConfig)"
  "keeps (built a e fp) (do_call e' LoggerSetup)"
  "keeps (built a e fp) (do_call e' WorkerStart)"
  "keeps (built a e fp) (do_call e' ServerStart)"
  "keeps (built a e fp) (do_call e' (ServerAddEvidence ev))"
  "keeps (built a e fp) (do_call e' (Construct c kw))"
  "keeps (built a e fp) (do_call e' (ClientCall m kw))"
  "keeps (built a e fp) (do_call e' (ToJson (build_request a e ev fp)))"
  "keeps (built a e fp) (do_call e' (SendRequest (build_request a e ev fp)))"
  "keeps (built a e fp) (set_evidence ev)"
  "keeps (built a e fp) set_cloud_disk"
  "keeps (built a e fp) (emit (PrintBytes m))"
  by (auto simp: keeps_def built_def requests_of_simps sys_exit_def raise_def log_def
        do_call_def set_evidence_def set_cloud_disk_def)

lemma built_on_client:
  "keeps (built a e fp) (do_call e' c) \<Longrightarrow> keeps (built a e fp) (on_client e' c)"
  using built_prims(2) [of a e fp "''AttributeError''"]
  by (auto simp: keeps_def on_client_def split: option.splits)

lemma built_seq: "built a e fp s \<Longrightarrow> list_all (keeps (built a e fp)) fs \<Longrightarrow> built a e fp (seq fs s)"
  using keepsD [OF keeps_seq] by blast

lemmas built_simps = built_prims built_on_client built_seq keeps_seq keeps_skip

lemma built_status: "keeps (built a e fp) (status_command a e ct dh pf fr tid u)"
  by (simp add: status_command_def Let_def print_client_call_def client_call_def built_simps
        del: seq.simps)

lemma built_run_command: "keeps (built a e fp) (run_command a e c)"
  by (cases c)
     (simp_all add: encrypted_disk_def client_call_def built_status built_simps del: seq.simps)

lemma built_gate: "keeps (built a e fp) (compatibility_gate a e)"
  unfolding keeps_def
proof (intro allI impI)
  fix s
  assume "built a e fp s"
  then show "built a e fp (compatibility_gate a e s)"
    by (simp add: compatibility_gate_def built_simps split: option.splits del: seq.simps)
qed

lemma built_project_check: "keeps (built a e fp) (project_check a e)"
  unfolding keeps_def
proof (intro allI impI)
  fix s
  assume "built a e fp s"
  then show "built a e fp (project_check a e s)"
    by (simp add: project_check_def built_simps keepsD [OF built_prims(2)]
          keepsD [OF built_prims(3)] split: option.splits del: seq.simps)
qed

lemma built_submit: "keeps (built a e fp) (submit a e ev (build_request a e ev fp))"
  by (simp add: submit_def print_client_call_def client_call_def built_simps del: seq.simps)

lemma built_dispatch: "keeps (built a e fp) (dispatch a e)"
  unfolding keeps_def
proof (intro allI impI)
  fix s
  assume b: "built a e fp s"
  then have fp: "filter_patterns s = fp"
    by (simp add: built_def)
  have r: "built a e fp (s\<lparr>request := Some (build_request a e ev fp)\<rparr>)" for ev
    using b by (auto simp: built_def requests_of_def)
  show "built a e fp (dispatch a e s)"
    using b r
    by (simp add: dispatch_def Let_def fp built_simps keepsD [OF built_submit]
          split: option.splits del: seq.simps)
qed

lemma built_run_local_task: "keeps (built a e fp) (run_local_task a e)"
  unfolding keeps_def
proof (intro allI impI)
  fix s
  assume b: "built a e fp s"
  have "keeps (built a e fp) (do_call e (RunLocalTask t (request s)))" for t
    unfolding keeps_def
  proof (intro allI impI)
    fix s' assume "built a e fp s'"
    moreover have "set_option (request s) \<subseteq> requests_of s"
      by (simp add: requests_of_def)
    ultimately show "built a e fp (do_call e (RunLocalTask t (request s)) s')"
      using b
      by (auto simp: built_def do_call_def requests_of_simps)
  qed
  then show "built a e fp (run_local_task a e s)"
    using b
    by (simp add: run_local_task_def built_simps split: option.splits del: seq.simps)
qed

lemma built_main: "built a e (filter_patterns (validated a e)) (main a e)"
proof -
  have "built a e (filter_patterns (validated a e)) (validated a e)"
    using fresh_validated [of a e] by (simp add: built_def fresh_def requests_of_def List.map_filter_def filter_empty_conv)
  then show ?thesis
    unfolding main_validated
    by (rule built_seq)
       (simp add: built_run_command built_gate built_project_check built_dispatch
          built_run_local_task built_prims)
qed

lemma build_request_recipe:
  "recipe_get (build_request a e ev fp) ''filter_patterns'' =
     (case fp of None \<Rightarrow> None | Some ps \<Rightarrow> if ps \<noteq> [] then Some ps else None)"
  "recipe_get (build_request a e ev fp) ''jobs_blacklist'' =
     (if jobs_blacklist a \<noteq> [] then Some (jobs_blacklist a) else None)"
  "recipe_get (build_request a e ev fp) ''jobs_whitelist'' =
     (if jobs_whitelist a \<noteq> [] then Some (jobs_whitelist a) else None)"
  "req_evidence (build_request a e ev fp) = [ev]"
  by (simp_all add: build_request_def new_request_def recipe_set_def recipe_get_def Let_def
        update_conv' split: option.splits)

text \<open>
  Claim C6. When both job filters are non-empty the run ends at line 320 with exit code
  1: nothing follows the error in the trace, no evidence has been constructed and no
  request exists. Consequently, in every run, no request that is built or handed to a
  collaborator carries both a non-empty \<open>jobs_blacklist\<close> and a non-empty
  \<open>jobs_whitelist\<close> in its recipe.
\<close>

theorem job_filters_exclusive:
  "(job_filter_conflict a \<longrightarrow>
      halted (main a e) = Some (Exit 1)
      \<and> trace (main a e) =
          [SetLevel (if quiet a then ERROR else if debug a then DEBUG else INFO),
           Log INFO (''Turbinia version: '' @ version e),
           Log ERROR (''A Job filter whitelist and blacklist cannot be specified ''
                      @ ''at the same time'')]
      \<and> the_evidence (main a e) = None
      \<and> requests_of (main a e) = {})
   \<and> (\<forall>r \<in> requests_of (main a e).
         \<not> (carries r ''jobs_blacklist'' \<and> carries r ''jobs_whitelist''))"
proof (intro conjI impI ballI)
  assume "job_filter_conflict a"
  then show "halted (main a e) = Some (Exit 1)"
    and "trace (main a e) =
          [SetLevel (if quiet a then ERROR else if debug a then DEBUG else INFO),
           Log INFO (''Turbinia version: '' @ version e),
           Log ERROR (''A Job filter whitelist and blacklist cannot be specified ''
                      @ ''at the same time'')]"
    and "the_evidence (main a e) = None"
    and "requests_of (main a e) = {}"
    by (simp_all add: conflict_main init_state_def requests_of_def List.map_filter_def)
next
  fix r
  assume r: "r \<in> requests_of (main a e)"
  show "\<not> (carries r ''jobs_blacklist'' \<and> carries r ''jobs_whitelist'')"
  proof (cases "job_filter_conflict a")
    case True
    then have "requests_of (main a e) = {}"
      by (simp add: conflict_main init_state_def requests_of_def List.map_filter_def)
    with r show ?thesis by simp
  next
    case False
    from built_main [of a e] r obtain ev
      where "r = build_request a e ev (filter_patterns (validated a e))"
      by (auto simp: built_def)
    with False show ?thesis
      by (auto simp: carries_def build_request_recipe job_filter_conflict_def)
  qed
qed

theorem job_filters_exclusive_witness:
  "job_filter_conflict ((default_args rawdisk_example)
       \<lparr>jobs_whitelist := [''a''], jobs_blacklist := [''b'']\<rparr>)
   \<and> halted (main ((default_args rawdisk_example)
        \<lparr>jobs_whitelist := [''a''], jobs_blacklist := [''b'']\<rparr>) (example_env False))
      = Some (Exit 1)
   \<and> the_evidence (main ((default_args rawdisk_example)
        \<lparr>jobs_whitelist := [''a''], jobs_blacklist := [''b'']\<rparr>) (example_env False)) = None
   \<and> build_request ((default_args (cloud_example ''proj-b''))\<lparr>jobs_whitelist := [''a'']\<rparr>)
         (example_env False) (GoogleCloudDisk ''disk1'' ''disk1'' ''proj-b'' 0 ''zone'' None) None
       \<in> requests_of (main ((default_args (cloud_example ''proj-b''))
            \<lparr>jobs_whitelist := [''a'']\<rparr>) (example_env False))
   \<and> carries (build_request ((default_args (cloud_example ''proj-b''))\<lparr>jobs_whitelist := [''a'']\<rparr>)
         (example_env False) (GoogleCloudDisk ''disk1'' ''disk1'' ''proj-b'' 0 ''zone'' None) None)
        ''jobs_whitelist''
   \<and> \<not> carries (build_request ((default_args (cloud_example ''proj-b''))\<lparr>jobs_whitelist := [''a'']\<rparr>)
         (example_env False) (GoogleCloudDisk ''disk1'' ''disk1'' ''proj-b'' 0 ''zone'' None) None)
        ''jobs_blacklist''"
  using job_filters_exclusive [of "(default_args rawdisk_example)
            \<lparr>jobs_whitelist := [''a''], jobs_blacklist := [''b'']\<rparr>" "example_env False"]
        job_filters_exclusive [of "(default_args (cloud_example ''proj-b''))
            \<lparr>jobs_whitelist := [''a'']\<rparr>" "example_env False"]
  by code_simp

section \<open>The filter patterns file\<close>

lemma filter_patterns_kept:
  "keeps (\<lambda>s. filter_patterns s = c) (sys_exit n)"
  "keeps (\<lambda>s. filter_patterns s = c) (raise x)"
  "keeps (\<lambda>s. filter_patterns s = c) (log l m)"
  "keeps (\<lambda>s. filter_patterns s = c) (emit ev)"
  "keeps (\<lambda>s. filter_patterns s = c) (do_call e k)"
  "keeps (\<lambda>s. filter_patterns s = c) (\<lambda>s. s\<lparr>client := cl\<rparr>)"
  by (simp_all add: keeps_def prims)

lemma filter_patterns_after_load:
  "filter_patterns (seq [do_call e LoadConfig, make_client a e, check_run_local a, set_config a] s)
     = filter_patterns s"
proof -
  have "keeps (\<lambda>s'. filter_patterns s' = filter_patterns s)
          (seq [do_call e LoadConfig, make_client a e, check_run_local a, set_config a])"
    by (rule keeps_seq)
       (simp add: make_client_def check_run_local_def set_config_def Let_def
          filter_patterns_kept keeps_seq keeps_skip del: seq.simps)
  then show ?thesis
    by (simp add: keeps_def del: seq.simps)
qed

lemma validated_after_load:
  "validated a e =
     seq [do_call e LoadConfig, make_client a e, check_run_local a, set_config a]
       (seq [set_log_level a, log INFO (''Turbinia version: '' @ version e),
             check_job_filters a, load_filter_patterns a e] init_state)"
  unfolding validated_def
  by (simp only: seq_append [symmetric] append.simps)

lemma main_after_load:
  "main a e =
     seq [do_call e LoadConfig, make_client a e, check_run_local a, set_config a,
          run_command a e (command a), compatibility_gate a e, project_check a e,
          dispatch a e, run_local_task a e, log INFO ''Done.'', sys_exit 0]
       (seq [set_log_level a, log INFO (''Turbinia version: '' @ version e),
             check_job_filters a, load_filter_patterns a e] init_state)"
  unfolding main_def
  by (simp only: seq_append [symmetric] append.simps)

text \<open>
  Claim C7. The command line names a filter patterns file. If the file does not exist,
  the run ends with exit code 1; when the job filters did not end it before, the error
  of line 325 is the last thing logged and no evidence is constructed. If the file
  exists and reading it raises an \<open>IOError\<close>, then, the job filters having passed, the
  statement of lines 327 to 332 adds one warning to the log and nothing else, the run
  goes on with \<open>LoadConfig\<close> and the rest of \<open>main\<close>, \<open>filter_patterns\<close> stays \<open>None\<close> to
  the end, and no request of the run has \<open>filter_patterns\<close> in its recipe.
\<close>

theorem filter_patterns_file_tiers:
  assumes "filter_patterns_file a = Some p" and "p \<noteq> []"
  shows "(\<not> path_exists e p \<longrightarrow>
            halted (main a e) = Some (Exit 1)
            \<and> (\<not> job_filter_conflict a \<longrightarrow>
                 trace (main a e) =
                   [SetLevel (if quiet a then ERROR else if debug a then DEBUG else INFO),
                    Log INFO (''Turbinia version: '' @ version e),
                    Log ERROR ''Filter patterns file {0:s} does not exist.'']
                 \<and> the_evidence (main a e) = None))
       \<and> (path_exists e p \<and> read_lines e p = Inl err \<and> \<not> job_filter_conflict a \<longrightarrow>
            main a e =
              seq [do_call e LoadConfig, make_client a e, check_run_local a, set_config a,
                   run_command a e (command a), compatibility_gate a e, project_check a e,
                   dispatch a e, run_local_task a e, log INFO ''Done.'', sys_exit 0]
                (init_state
                   \<lparr>trace :=
                      [SetLevel (if quiet a then ERROR else if debug a then DEBUG else INFO),
                       Log INFO (''Turbinia version: '' @ version e),
                       Log WARNING (''Cannot open file '' @ p @ '' ['' @ err @ '']'')]\<rparr>)
            \<and> filter_patterns (main a e) = None
            \<and> (\<forall>r \<in> requests_of (main a e). recipe_get r ''filter_patterns'' = None))"
proof (intro conjI impI)
  assume missing: "\<not> path_exists e p"
  show "halted (main a e) = Some (Exit 1)"
  proof (cases "job_filter_conflict a")
    case True
    then show ?thesis by (simp add: conflict_main)
  next
    case False
    with assms missing show ?thesis
      by (simp add: main_after_load set_log_level_def check_job_filters_def
            load_filter_patterns_def job_filter_conflict_def prims seq_halted del: seq.simps)
         (simp add: prims)
  qed
  assume "\<not> job_filter_conflict a"
  with assms missing
  have "seq [set_log_level a, log INFO (''Turbinia version: '' @ version e),
             check_job_filters a, load_filter_patterns a e] init_state
        = init_state
            \<lparr>trace := [SetLevel (if quiet a then ERROR else if debug a then DEBUG else INFO),
                       Log INFO (''Turbinia version: '' @ version e),
                       Log ERROR ''Filter patterns file {0:s} does not exist.''],
             halted := Some (Exit 1)\<rparr>"
    by (simp add: set_log_level_def check_job_filters_def load_filter_patterns_def
          job_filter_conflict_def prims)
  then have "main a e = init_state
            \<lparr>trace := [SetLevel (if quiet a then ERROR else if debug a then DEBUG else INFO),
                       Log INFO (''Turbinia version: '' @ version e),
                       Log ERROR ''Filter patterns file {0:s} does not exist.''],
             halted := Some (Exit 1)\<rparr>"
    by (simp add: main_after_load seq_halted del: seq.simps)
  then show "trace (main a e) =
                   [SetLevel (if quiet a then ERROR else if debug a then DEBUG else INFO),
                    Log INFO (''Turbinia version: '' @ version e),
                    Log ERROR ''Filter patterns file {0:s} does not exist.'']"
    and "the_evidence (main a e) = None"
    by (simp_all add: init_state_def)
next
  assume h: "path_exists e p \<and> read_lines e p = Inl err \<and> \<not> job_filter_conflict a"
  with assms
  have loaded: "seq [set_log_level a, log INFO (''Turbinia version: '' @ version e),
             check_job_filters a, load_filter_patterns a e] init_state
        = init_state
            \<lparr>trace := [SetLevel (if quiet a then ERROR else if debug a then DEBUG else INFO),
                       Log INFO (''Turbinia version: '' @ version e),
                       Log WARNING (''Cannot open file '' @ p @ '' ['' @ err @ '']'')]\<rparr>"
    by (simp add: set_log_level_def check_job_filters_def load_filter_patterns_def
          job_filter_conflict_def prims)
  then show "main a e =
              seq [do_call e LoadConfig, make_client a e, check_run_local a, set_config a,
                   run_command a e (command a), compatibility_gate a e, project_check a e,
                   dispatch a e, run_local_task a e, log INFO ''Done.'', sys_exit 0]
                (init_state
                   \<lparr>trace :=
                      [SetLevel (if quiet a then ERROR else if debug a then DEBUG else INFO),
                       Log INFO (''Turbinia version: '' @ version e),
                       Log WARNING (''Cannot open file '' @ p @ '' ['' @ err @ '']'')]\<rparr>)"
    by (simp only: main_after_load)
  have none: "filter_patterns (validated a e) = None"
    by (simp only: validated_after_load filter_patterns_after_load loaded)
       (simp add: init_state_def)
  with built_main [of a e] show "filter_patterns (main a e) = None"
    by (simp add: built_def)
  show "\<forall>r \<in> requests_of (main a e). recipe_get r ''filter_patterns'' = None"
  proof
    fix r assume "r \<in> requests_of (main a e)"
    with built_main [of a e] none obtain ev where "r = build_request a e ev None"
      by (auto simp: built_def)
    then show "recipe_get r ''filter_patterns'' = None"
      by (simp add: build_request_recipe)
  qed
qed

theorem filter_patterns_file_tiers_witness:
  "filter_patterns_file ((default_args rawdisk_example)\<lparr>filter_patterns_file := Some ''f''\<rparr>)
     = Some ''f''
   \<and> ''f'' \<noteq> []
   \<and> \<not> path_exists (example_env True) ''f''
   \<and> halted (main ((default_args rawdisk_example)\<lparr>filter_patterns_file := Some ''f''\<rparr>)
                (example_env True)) = Some (Exit 1)
   \<and> path_exists ((example_env True)\<lparr>path_exists := (\<lambda>p. True)\<rparr>) ''f''
   \<and> read_lines ((example_env True)\<lparr>path_exists := (\<lambda>p. True)\<rparr>) ''f'' = Inl ''Errno''
   \<and> \<not> job_filter_conflict
         ((default_args rawdisk_example)\<lparr>filter_patterns_file := Some ''f''\<rparr>)
   \<and> filter_patterns (main ((default_args rawdisk_example)\<lparr>filter_patterns_file := Some ''f''\<rparr>)
         ((example_env True)\<lparr>path_exists := (\<lambda>p. True)\<rparr>)) = None
   \<and> Log WARNING ''Cannot open file f [Errno]''
       \<in> set (trace (main ((default_args rawdisk_example)\<lparr>filter_patterns_file := Some ''f''\<rparr>)
                  ((example_env True)\<lparr>path_exists := (\<lambda>p. True)\<rparr>)))
   \<and> halted (main ((default_args rawdisk_example)\<lparr>filter_patterns_file := Some ''f''\<rparr>)
         ((example_env True)\<lparr>path_exists := (\<lambda>p. True)\<rparr>)) = Some (Exit 0)"
  using filter_patterns_file_tiers
          [of "(default_args rawdisk_example)\<lparr>filter_patterns_file := Some ''f''\<rparr>" "''f''"
              "example_env True" "''Errno''"]
        filter_patterns_file_tiers
          [of "(default_args rawdisk_example)\<lparr>filter_patterns_file := Some ''f''\<rparr>" "''f''"
              "(example_env True)\<lparr>path_exists := (\<lambda>p. True)\<rparr>" "''Errno''"]
  by code_simp

section \<open>The dump of the request\<close>

lemma send_is_request: "is_send_request x \<Longrightarrow> event_request x \<noteq> None"
  by (cases x rule: is_send_request.cases) simp_all

lemma gated_unsent:
  assumes "the_evidence (gated a e) = Some ev"
  shows "\<forall>x \<in> set (trace (gated a e)). event_request x = None"
proof -
  from assms have c: "the_evidence (constructed a e) = Some ev"
    by (simp add: gated_fields)
  from constructed_evidence(6) [OF c] fresh_validated [of a e]
  have "\<forall>x \<in> set (trace (constructed a e)). event_request x = None"
    by (simp add: fresh_def)
  then show ?thesis
    by (simp add: gated_def compatibility_gate_def project_check_def prims
          split: option.splits)
qed

text \<open>
  Claim C4, as the code has it (lines 465 to 513). Evidence is present, the
  Compatibility Gate has not ended the run, \<open>--server\<close> is not set and \<open>--dump_json\<close> is.
  Then, \<open>to_json\<close> returning, the run prints the UTF-8 encoding of the serialization of
  the request and ends with exit code 0, these two events being the last of the trace.
  The request serialized holds the evidence, and so its name, and its recipe holds the
  filter patterns that were loaded and the job filter that was given. No event of the
  whole trace is a call of \<open>send_request\<close>, before the dump or after it.
\<close>

theorem dump_json_without_submission:
  assumes "the_evidence (gated a e) = Some ev" and "halted (gated a e) = None"
    and "\<not> server a" and "dump_json a"
    and "returns e (ToJson (build_request a e ev (filter_patterns (gated a e))))"
  shows "(let r = build_request a e ev (filter_patterns (gated a e)) in
           halted (main a e) = Some (Exit 0)
           \<and> trace (main a e) =
               trace (gated a e) @ [Call (ToJson r), PrintBytes (result e (ToJson r))]
           \<and> map evidence_name (req_evidence r) = [evidence_name ev]
           \<and> recipe_get r ''filter_patterns'' =
               (case filter_patterns (gated a e) of
                  None \<Rightarrow> None
                | Some ps \<Rightarrow> if ps \<noteq> [] then Some ps else None)
           \<and> recipe_get r ''jobs_blacklist'' =
               (if jobs_blacklist a \<noteq> [] then Some (jobs_blacklist a) else None)
           \<and> recipe_get r ''jobs_whitelist'' =
               (if jobs_whitelist a \<noteq> [] then Some (jobs_whitelist a) else None)
           \<and> (\<forall>x \<in> set (trace (main a e)). \<not> is_send_request x))"
proof -
  let ?r = "build_request a e ev (filter_patterns (gated a e))"
  from assms have m: "main a e = sys_exit 0 (emit (PrintBytes (result e (ToJson ?r)))
                        (do_call e (ToJson ?r) ((gated a e)\<lparr>request := Some ?r\<rparr>)))"
    by (simp add: main_gated dispatch_def submit_def Let_def prims)
  then have t: "trace (main a e) =
                  trace (gated a e) @ [Call (ToJson ?r), PrintBytes (result e (ToJson ?r))]"
    and h: "halted (main a e) = Some (Exit 0)"
    by (simp_all add: prims)
  from gated_unsent [OF assms(1)] send_is_request
  have "\<forall>x \<in> set (trace (gated a e)). \<not> is_send_request x"
    by blast
  with t have "\<forall>x \<in> set (trace (main a e)). \<not> is_send_request x"
    by simp
  with t h show ?thesis
    by (simp add: Let_def build_request_recipe)
qed

theorem dump_json_without_submission_witness:
  "the_evidence (gated ((default_args rawdisk_example)
       \<lparr>dump_json := True, jobs_whitelist := [''strings'']\<rparr>) (example_env True))
     = Some (RawDisk ''/data/img.dd'' ''/data/img.dd'' 1 None)
   \<and> halted (gated ((default_args rawdisk_example)
       \<lparr>dump_json := True, jobs_whitelist := [''strings'']\<rparr>) (example_env True)) = None
   \<and> \<not> server ((default_args rawdisk_example)
       \<lparr>dump_json := True, jobs_whitelist := [''strings'']\<rparr>)
   \<and> dump_json ((default_args rawdisk_example)
       \<lparr>dump_json := True, jobs_whitelist := [''strings'']\<rparr>)
   \<and> returns (example_env True)
        (ToJson (build_request ((default_args rawdisk_example)
           \<lparr>dump_json := True, jobs_whitelist := [''strings'']\<rparr>) (example_env True)
           (RawDisk ''/data/img.dd'' ''/data/img.dd'' 1 None) None))
   \<and> halted (main ((default_args rawdisk_example)
       \<lparr>dump_json := True, jobs_whitelist := [''strings'']\<rparr>) (example_env True))
      = Some (Exit 0)
   \<and> recipe_get (build_request ((default_args rawdisk_example)
           \<lparr>dump_json := True, jobs_whitelist := [''strings'']\<rparr>) (example_env True)
           (RawDisk ''/data/img.dd'' ''/data/img.dd'' 1 None) None) ''jobs_whitelist''
      = Some [''strings'']
   \<and> list_all (\<lambda>x. \<not> is_send_request x)
        (trace (main ((default_args rawdisk_example)
           \<lparr>dump_json := True, jobs_whitelist := [''strings'']\<rparr>) (example_env True)))"
  using dump_json_without_submission [of "(default_args rawdisk_example)
            \<lparr>dump_json := True, jobs_whitelist := [''strings'']\<rparr>" "example_env True"
          "RawDisk ''/data/img.dd'' ''/data/img.dd'' 1 None"]
  by code_simp

text \<open>
  The claim as stated fails when the Compatibility Gate ends the run: \<open>-D rawdisk\<close> on a
  deployment without a shared file system has evidence, no \<open>--server\<close> and \<open>--dump_json\<close>,
  and ends with exit code 1 at line 477, the advice to wrap the evidence being its last
  log line and nothing having been printed.
\<close>

theorem dump_json_without_submission_counterexample:
  "the_evidence (constructed ((default_args rawdisk_example)\<lparr>dump_json := True\<rparr>)
                   (example_env False))
     = Some (RawDisk ''/data/img.dd'' ''/data/img.dd'' 1 None)
   \<and> \<not> server ((default_args rawdisk_example)\<lparr>dump_json := True\<rparr>)
   \<and> dump_json ((default_args rawdisk_example)\<lparr>dump_json := True\<rparr>)
   \<and> halted (main ((default_args rawdisk_example)\<lparr>dump_json := True\<rparr>) (example_env False))
       = Some (Exit 1)
   \<and> last (trace (main ((default_args rawdisk_example)\<lparr>dump_json := True\<rparr>)
                      (example_env False)))
       = Log ERROR (''The evidence type RawDisk cannot run on Cloud instances of ''
                    @ ''Turbinia. Consider wrapping it in a ''
                    @ ''GoogleCloudDiskRawEmbedded or other Cloud compatible ''
                    @ ''object'')
   \<and> filter is_print (trace (main ((default_args rawdisk_example)\<lparr>dump_json := True\<rparr>)
                                (example_env False))) = []"
  by code_simp

end
